theory Spec2Isabelle
  imports Complex_Main
begin

section \<open>Python values and exceptions\<close>

text \<open>
  The repository is dynamically typed Python.  What the remote service returns is whatever
  \<^verbatim>\<open>response.json()\<close> decodes, so the decoded payload, the raw elements, their ids and
  their tags are values of the type \<open>json\<close>.  A dict is the list of its items in insertion
  order (keys are distinct in a Python dict; lookups read the list with \<open>map_of\<close>).
  Python floats and ints are both \<open>JNum\<close>, read as exact real numbers: comparisons and
  \<^verbatim>\<open>==\<close> on finite numbers agree with the reals, rounding and NaN are not modelled.
  Python's \<^verbatim>\<open>==\<close> is HOL equality on these values (so \<^verbatim>\<open>True == 1\<close> and the
  order-insensitivity of dict equality are not modelled either).
\<close>

datatype json =
    JNull
  | JBool bool
  | JNum real
  | JStr string
  | JArr "json list"
  | JObj "(string \<times> json) list"

text \<open>
  The exceptions the code can meet.  \<open>RequestException\<close> stands for the whole family
  \<^verbatim>\<open>requests.exceptions.RequestException\<close> (ConnectionError, Timeout, HTTPError, ...),
  its argument telling the members apart; the others are the builtin exceptions that the
  operations on decoded values raise.  All of them are subclasses of \<^verbatim>\<open>Exception\<close>.
\<close>

datatype exn =
    RequestException string
  | ValueError string
  | TypeError
  | AttributeError
  | KeyError string
  | IndexError

fun is_RequestException :: "exn \<Rightarrow> bool" where
  "is_RequestException (RequestException m) = True"
| "is_RequestException e = False"

text \<open>Truthiness, as \<^verbatim>\<open>not data\<close> reads a value.\<close>

fun py_truthy :: "json \<Rightarrow> bool" where
  "py_truthy JNull = False"
| "py_truthy (JBool b) = b"
| "py_truthy (JNum r) = (r \<noteq> 0)"
| "py_truthy (JStr s) = (s \<noteq> [])"
| "py_truthy (JArr xs) = (xs \<noteq> [])"
| "py_truthy (JObj kvs) = (kvs \<noteq> [])"

text \<open>Substring test, the meaning of \<^verbatim>\<open>in\<close> between two strings.\<close>

fun py_substring :: "string \<Rightarrow> string \<Rightarrow> bool" where
  "py_substring needle [] = (needle = [])"
| "py_substring needle (c # cs) =
     (take (length needle) (c # cs) = needle \<or> py_substring needle cs)"

text \<open>\<^verbatim>\<open>key in v\<close> for a string key: a key of a dict, an item of a list, a substring of a
  string; a \<^verbatim>\<open>TypeError\<close> on a value that is not a container.\<close>

fun py_contains :: "json \<Rightarrow> string \<Rightarrow> exn + bool" where
  "py_contains (JObj kvs) k = Inr (map_of kvs k \<noteq> None)"
| "py_contains (JArr xs) k = Inr (JStr k \<in> set xs)"
| "py_contains (JStr s) k = Inr (py_substring k s)"
| "py_contains v k = Inl TypeError"

text \<open>\<^verbatim>\<open>v[key]\<close> for a string key: the value in a dict (\<^verbatim>\<open>KeyError\<close> when absent), a
  \<^verbatim>\<open>TypeError\<close> on everything else (lists and strings take integer indices).\<close>

fun py_getitem :: "json \<Rightarrow> string \<Rightarrow> exn + json" where
  "py_getitem (JObj kvs) k = (case map_of kvs k of None \<Rightarrow> Inl (KeyError k) | Some v \<Rightarrow> Inr v)"
| "py_getitem v k = Inl TypeError"

text \<open>\<^verbatim>\<open>v.get(key, default)\<close>: only a dict has the method.\<close>

fun py_get :: "json \<Rightarrow> string \<Rightarrow> json \<Rightarrow> exn + json" where
  "py_get (JObj kvs) k d = Inr (case map_of kvs k of None \<Rightarrow> d | Some v \<Rightarrow> v)"
| "py_get v k d = Inl AttributeError"

text \<open>The items a \<^verbatim>\<open>for\<close> loop visits: the items of a list, the keys of a dict, the
  characters of a string; a \<^verbatim>\<open>TypeError\<close> on a value that is not iterable.\<close>

fun py_iter :: "json \<Rightarrow> exn + json list" where
  "py_iter (JArr xs) = Inr xs"
| "py_iter (JObj kvs) = Inr (map (\<lambda>kv. JStr (fst kv)) kvs)"
| "py_iter (JStr s) = Inr (map (\<lambda>c. JStr [c]) s)"
| "py_iter v = Inl TypeError"

text \<open>What a dict accepts as a key: lists and dicts are unhashable.\<close>

fun py_hashable :: "json \<Rightarrow> bool" where
  "py_hashable (JArr xs) = False"
| "py_hashable (JObj kvs) = False"
| "py_hashable v = True"

section \<open>models/bounding\_box.py\<close>

record BoundingBox =
  lat_min :: real
  lon_min :: real
  lat_max :: real
  lon_max :: real

text \<open>\<open>to_overpass\<close> formats the four numbers with Python's \<^verbatim>\<open>str\<close> of a float, which is
  not code of this repository: it is the parameter \<open>fmt\<close>.\<close>

definition to_overpass :: "(real \<Rightarrow> string) \<Rightarrow> BoundingBox \<Rightarrow> string" where
  "to_overpass fmt b =
     ''('' @ fmt (lat_min b) @ '','' @ fmt (lon_min b) @ '','' @ fmt (lat_max b) @ '','' @
     fmt (lon_max b) @ '')''"

definition bbox_is_valid :: "BoundingBox \<Rightarrow> bool" where
  "bbox_is_valid b =
     (if lat_min b \<ge> lat_max b then False
      else if lon_min b \<ge> lon_max b then False
      else if \<not> (-90 \<le> lat_min b \<and> lat_min b \<le> 90) then False
      else if \<not> (-90 \<le> lat_max b \<and> lat_max b \<le> 90) then False
      else if \<not> (-180 \<le> lon_min b \<and> lon_min b \<le> 180) then False
      else if \<not> (-180 \<le> lon_max b \<and> lon_max b \<le> 180) then False
      else True)"

section \<open>models/polygon.py\<close>

datatype PolygonType = WAY | RELATION | NODE

fun polygon_type_value :: "PolygonType \<Rightarrow> string" where
  "polygon_type_value WAY = ''way''"
| "polygon_type_value RELATION = ''relation''"
| "polygon_type_value NODE = ''node''"

text \<open>
  A polygon.  The field \<^verbatim>\<open>coordinates\<close> is a list of \<^verbatim>\<open>[lon, lat]\<close> pairs; the type of
  the two components is the parameter \<open>'n\<close>: the parser stores the decoded values as they
  come (\<open>json polygon\<close>), the area is computed on numbers (\<open>real polygon\<close>).  The methods
  that only compare and append coordinates are the same for both.
\<close>

record 'n polygon =
  osm_id :: json
  polygon_type :: PolygonType
  coordinates :: "('n \<times> 'n) list"
  tags :: json
  properties :: json

definition is_closed :: "'n polygon \<Rightarrow> bool" where
  "is_closed p =
     (if length (coordinates p) < 3 then False
      else hd (coordinates p) = last (coordinates p))"

text \<open>\<open>close\<close> mutates the polygon in place: the model returns the polygon after the call,
  or the \<^verbatim>\<open>IndexError\<close> of \<^verbatim>\<open>self.coordinates[0]\<close> on an empty list.\<close>

definition close :: "'n polygon \<Rightarrow> exn + 'n polygon" where
  "close p =
     (if \<not> is_closed p then
        (case coordinates p of
           [] \<Rightarrow> Inl IndexError
         | c # cs \<Rightarrow> Inr (p\<lparr>coordinates := coordinates p @ [c]\<rparr>))
      else Inr p)"

definition polygon_is_valid :: "'n polygon \<Rightarrow> bool" where
  "polygon_is_valid p = (if length (coordinates p) < 3 then False else is_closed p)"

text \<open>
  The arithmetic of \<open>get_area\<close>.  The coordinates of a polygon whose area is computed are
  finite Python floats (IEEE 754 binary64), each given by the real number it denotes.  The
  results of the operations are values of \<open>pyfloat\<close>, which adds the two infinities and
  NaN.  An operation on finite values takes the exact real result and rounds it to the
  nearest double, ties to even; the result is an infinity when the rounded magnitude
  reaches \<open>2 ^ 1024\<close>, and below \<open>2 ^ - 1022\<close> the doubles keep the spacing \<open>2 ^ - 1074\<close>.  The
  two zeros are one value.  None of these operations raises an exception in Python.
\<close>

datatype pyfloat = Finite real | PInf | NInf | NaN

text \<open>Rounding to the nearest integer, ties to the even one.\<close>

definition round_half_even :: "real \<Rightarrow> int" where
  "round_half_even x =
     (let f = \<lfloor>x\<rfloor>; d = x - of_int f
      in if d < 1 / 2 then f else if 1 / 2 < d then f + 1 else if even f then f else f + 1)"

text \<open>The binary exponent of the binade of \<open>x\<close>; the subnormal numbers share the exponent
  -1022 of the smallest normal ones.\<close>

definition double_exponent :: "real \<Rightarrow> int" where
  "double_exponent x = max \<lfloor>log 2 \<bar>x\<bar>\<rfloor> (- 1022)"

text \<open>The double nearest to the real number \<open>x\<close>: a multiple of the spacing \<open>q\<close> of the
  binade (53 significant bits), or an infinity when that multiple is \<open>2 ^ 1024\<close> or more.\<close>

definition round_double :: "real \<Rightarrow> pyfloat" where
  "round_double x =
     (if x = 0 then Finite 0
      else
        let q = 2 powi (double_exponent x - 52);
            r = of_int (round_half_even (x / q)) * q
        in if 2 ^ 1024 \<le> \<bar>r\<bar> then (if 0 < x then PInf else NInf) else Finite r)"

text \<open>The operations \<^verbatim>\<open>*\<close>, unary \<^verbatim>\<open>-\<close>, \<^verbatim>\<open>+\<close>, \<^verbatim>\<open>-\<close>, \<^verbatim>\<open>abs\<close>, \<^verbatim>\<open>/ 2.0\<close> and \<^verbatim>\<open>>= 0\<close>.  The
  products of \<open>get_area\<close> are products of coordinates, which are finite.\<close>

definition float_mul :: "real \<Rightarrow> real \<Rightarrow> pyfloat" where
  "float_mul x y = round_double (x * y)"

fun float_neg :: "pyfloat \<Rightarrow> pyfloat" where
  "float_neg (Finite x) = Finite (- x)"
| "float_neg PInf = NInf"
| "float_neg NInf = PInf"
| "float_neg NaN = NaN"

fun float_add :: "pyfloat \<Rightarrow> pyfloat \<Rightarrow> pyfloat" where
  "float_add (Finite x) (Finite y) = round_double (x + y)"
| "float_add NaN b = NaN"
| "float_add a NaN = NaN"
| "float_add PInf NInf = NaN"
| "float_add NInf PInf = NaN"
| "float_add PInf b = PInf"
| "float_add a PInf = PInf"
| "float_add NInf b = NInf"
| "float_add a NInf = NInf"

definition float_sub :: "pyfloat \<Rightarrow> pyfloat \<Rightarrow> pyfloat" where
  "float_sub a b = float_add a (float_neg b)"

fun float_abs :: "pyfloat \<Rightarrow> pyfloat" where
  "float_abs (Finite x) = Finite \<bar>x\<bar>"
| "float_abs PInf = PInf"
| "float_abs NInf = PInf"
| "float_abs NaN = NaN"

fun float_half :: "pyfloat \<Rightarrow> pyfloat" where
  "float_half (Finite x) = round_double (x / 2)"
| "float_half PInf = PInf"
| "float_half NInf = NInf"
| "float_half NaN = NaN"

fun float_ge_zero :: "pyfloat \<Rightarrow> bool" where
  "float_ge_zero (Finite x) = (0 \<le> x)"
| "float_ge_zero PInf = True"
| "float_ge_zero NInf = False"
| "float_ge_zero NaN = False"

text \<open>The loop of \<open>get_area\<close> over \<^verbatim>\<open>range(len(self.coordinates) - 1)\<close>: it visits every pair
  of consecutive coordinates and adds \<^verbatim>\<open>(x1 * y2) - (x2 * y1)\<close> to the running area,
  which starts at \<^verbatim>\<open>0.0\<close>.\<close>

fun shoelace_loop :: "(real \<times> real) list \<Rightarrow> pyfloat \<Rightarrow> pyfloat" where
  "shoelace_loop ((x1, y1) # (x2, y2) # cs) area =
     shoelace_loop ((x2, y2) # cs)
       (float_add area (float_sub (float_mul x1 y2) (float_mul x2 y1)))"
| "shoelace_loop cs area = area"

definition get_area :: "real polygon \<Rightarrow> pyfloat" where
  "get_area p =
     (if \<not> is_closed p \<or> length (coordinates p) < 3 then Finite 0
      else float_half (float_abs (shoelace_loop (coordinates p) (Finite 0))))"

text \<open>The signed shoelace sum as a formula over the real numbers, to compare the loop
  with.\<close>

definition shoelace_sum :: "(real \<times> real) list \<Rightarrow> real" where
  "shoelace_sum cs =
     (\<Sum>i<length cs - 1. fst (cs ! i) * snd (cs ! Suc i) - fst (cs ! Suc i) * snd (cs ! i))"

text \<open>A real number that is a double, and a run of the loop, from the exact running area
  \<open>area\<close> on, in which no product, difference or sum has to be rounded.\<close>

definition exactly_double :: "real \<Rightarrow> bool" where
  "exactly_double x = (round_double x = Finite x)"

fun rounding_free :: "(real \<times> real) list \<Rightarrow> real \<Rightarrow> bool" where
  "rounding_free ((x1, y1) # (x2, y2) # cs) area =
     (exactly_double (x1 * y2) \<and> exactly_double (x2 * y1)
      \<and> exactly_double (x1 * y2 - x2 * y1)
      \<and> exactly_double (area + (x1 * y2 - x2 * y1))
      \<and> rounding_free ((x2, y2) # cs) (area + (x1 * y2 - x2 * y1)))"
| "rounding_free cs area = True"

text \<open>\<open>to_geojson_feature\<close>.  The dict display
  \<^verbatim>\<open>{"osm_id": ..., "type": ..., **self.tags, **self.properties}\<close> inserts the entries from
  left to right, a later entry taking the place of an earlier one with the same key; it is
  the map built with \<open>++\<close> in the same order.  Unpacking with \<^verbatim>\<open>**\<close> needs a dict and
  raises a \<^verbatim>\<open>TypeError\<close> on any other value.\<close>

record 'n feature =
  feature_type :: string
  geometry_type :: string
  geometry_coordinates :: "('n \<times> 'n) list list"
  feature_properties :: "string \<Rightarrow> json option"

fun py_mapping :: "json \<Rightarrow> exn + (string \<times> json) list" where
  "py_mapping (JObj kvs) = Inr kvs"
| "py_mapping v = Inl TypeError"

definition to_geojson_feature :: "'n polygon \<Rightarrow> exn + 'n feature" where
  "to_geojson_feature p =
     (case py_mapping (tags p) of
        Inl e \<Rightarrow> Inl e
      | Inr ts \<Rightarrow>
          (case py_mapping (properties p) of
             Inl e \<Rightarrow> Inl e
           | Inr ps \<Rightarrow>
               Inr \<lparr>feature_type = ''Feature'',
                    geometry_type = ''Polygon'',
                    geometry_coordinates = [coordinates p],
                    feature_properties =
                      [''osm_id'' \<mapsto> osm_id p,
                       ''type'' \<mapsto> JStr (polygon_type_value (polygon_type p))]
                      ++ map_of ts ++ map_of ps\<rparr>))"

section \<open>services/polygon\_service.py\<close>

record 'n feature_collection =
  collection_type :: string
  features :: "'n feature list"

text \<open>The list comprehension of \<open>convert_to_geojson\<close>: the first polygon whose conversion
  raises ends it with that exception.\<close>

fun features_of :: "'n polygon list \<Rightarrow> exn + 'n feature list" where
  "features_of [] = Inr []"
| "features_of (p # ps) =
     (case to_geojson_feature p of
        Inl e \<Rightarrow> Inl e
      | Inr f \<Rightarrow> (case features_of ps of Inl e \<Rightarrow> Inl e | Inr fs \<Rightarrow> Inr (f # fs)))"

definition convert_to_geojson :: "'n polygon list \<Rightarrow> exn + 'n feature_collection" where
  "convert_to_geojson polygons =
     (case features_of polygons of
        Inl e \<Rightarrow> Inl e
      | Inr fs \<Rightarrow> Inr \<lparr>collection_type = ''FeatureCollection'', features = fs\<rparr>)"

section \<open>clients/overpass\_client.py\<close>

record OverpassConfig =
  url :: string
  timeout :: int
  max_retries :: int
  retry_delay :: real

text \<open>
  The world outside the program.  One fetch is the three steps of an attempt,
  \<^verbatim>\<open>requests.get\<close>, \<^verbatim>\<open>raise_for_status\<close> and \<^verbatim>\<open>response.json()\<close>: it returns the
  decoded payload or raises.  The collaborator decides the outcome from the number of
  fetches made before and from the arguments of the call.  The trace of events records
  every fetch and every \<^verbatim>\<open>time.sleep\<close>, in order.  Console output is not modelled.
\<close>

datatype outcome = Returned json | Raised exn

datatype event = Fetch string string int | Sleep real

type_synonym collaborator = "nat \<Rightarrow> string \<Rightarrow> string \<Rightarrow> int \<Rightarrow> outcome"

fun is_Fetch :: "event \<Rightarrow> bool" where
  "is_Fetch (Fetch u q t) = True"
| "is_Fetch (Sleep d) = False"

definition fetch_count :: "event list \<Rightarrow> nat" where
  "fetch_count w = length (filter is_Fetch w)"

definition requests_get ::
  "collaborator \<Rightarrow> string \<Rightarrow> string \<Rightarrow> int \<Rightarrow> event list \<Rightarrow> outcome \<times> event list" where
  "requests_get net u q t w = (net (fetch_count w) u q t, w @ [Fetch u q t])"

definition time_sleep :: "real \<Rightarrow> event list \<Rightarrow> event list" where
  "time_sleep d w = w @ [Sleep d]"

definition py_range :: "int \<Rightarrow> int list" where
  "py_range n = map int [0..<nat n]"

text \<open>The body of the loop \<^verbatim>\<open>for attempt in range(self.config.max_retries)\<close>, over the
  attempts still to make; falling out of the loop returns the empty dict.\<close>

fun query_attempts ::
  "OverpassConfig \<Rightarrow> collaborator \<Rightarrow> string \<Rightarrow> int list \<Rightarrow> event list \<Rightarrow>
   (exn + json) \<times> event list" where
  "query_attempts cfg net overpass_ql [] w = (Inr (JObj []), w)"
| "query_attempts cfg net overpass_ql (attempt # rest) w =
     (case requests_get net (url cfg) overpass_ql (timeout cfg) w of
        (Returned j, w1) \<Rightarrow> (Inr j, w1)
      | (Raised e, w1) \<Rightarrow>
          if is_RequestException e then
            (if attempt < max_retries cfg - 1 then
               query_attempts cfg net overpass_ql rest
                 (time_sleep (retry_delay cfg * 2 ^ nat attempt) w1)
             else (Inl e, w1))
          else (Inl e, w1))"

definition query ::
  "OverpassConfig \<Rightarrow> collaborator \<Rightarrow> string \<Rightarrow> event list \<Rightarrow> (exn + json) \<times> event list" where
  "query cfg net overpass_ql w =
     query_attempts cfg net overpass_ql (py_range (max_retries cfg)) w"

text \<open>The events of a query whose attempt number \<open>k\<close> (counted from 0) is the last one:
  \<open>k\<close> failed fetches, each followed by its sleep, then the last fetch.
  \<open>failed_attempts cfg ql a k\<close> are the events of the \<open>k\<close> failed attempts numbered
  \<open>a\<close>, ..., \<open>a + k - 1\<close>.\<close>

fun failed_attempts :: "OverpassConfig \<Rightarrow> string \<Rightarrow> nat \<Rightarrow> nat \<Rightarrow> event list" where
  "failed_attempts cfg overpass_ql a 0 = []"
| "failed_attempts cfg overpass_ql a (Suc k) =
     [Fetch (url cfg) overpass_ql (timeout cfg), Sleep (retry_delay cfg * 2 ^ a)]
     @ failed_attempts cfg overpass_ql (Suc a) k"

definition attempt_events :: "OverpassConfig \<Rightarrow> string \<Rightarrow> nat \<Rightarrow> event list" where
  "attempt_events cfg overpass_ql k =
     failed_attempts cfg overpass_ql 0 k @ [Fetch (url cfg) overpass_ql (timeout cfg)]"

fun sleeps_of :: "event list \<Rightarrow> real list" where
  "sleeps_of [] = []"
| "sleeps_of (Sleep d # w) = d # sleeps_of w"
| "sleeps_of (Fetch u q t # w) = sleeps_of w"

section \<open>repositories/polygon\_repository.py\<close>

type_synonym 'n cache = "json \<Rightarrow> 'n polygon option"

text \<open>The state a call of the repository reads and writes: its cache and the trace of the
  world's events.\<close>

record state =
  cache :: "json cache"
  world :: "event list"

definition find_by_id :: "'n cache \<Rightarrow> json \<Rightarrow> exn + 'n polygon option" where
  "find_by_id c item_id = (if py_hashable item_id then Inr (c item_id) else Inl TypeError)"

text \<open>\<open>save\<close> returns its argument; the model returns the cache after the call, or the
  \<^verbatim>\<open>TypeError\<close> of an unhashable key.\<close>

definition save :: "'n cache \<Rightarrow> 'n polygon \<Rightarrow> exn + 'n cache" where
  "save c item =
     (if py_hashable (osm_id item) then Inr (c(osm_id item \<mapsto> item)) else Inl TypeError)"

definition delete :: "'n cache \<Rightarrow> json \<Rightarrow> exn + (bool \<times> 'n cache)" where
  "delete c item_id =
     (if py_hashable item_id then
        (if c item_id \<noteq> None then Inr (True, c(item_id := None)) else Inr (False, c))
      else Inl TypeError)"

definition clear_cache :: "'n cache \<Rightarrow> 'n cache" where
  "clear_cache c = Map.empty"

definition get_cache_size :: "'n cache \<Rightarrow> nat" where
  "get_cache_size c = card (dom c)"

definition quote_char :: string where
  "quote_char = [CHR 0x22]"

definition newline :: string where
  "newline = [CHR 0x0A]"

fun tag_conditions_loop :: "(string \<times> string) list \<Rightarrow> string \<Rightarrow> string" where
  "tag_conditions_loop [] conditions = conditions"
| "tag_conditions_loop ((key, val) # rest) conditions =
     tag_conditions_loop rest
       (conditions @ ''['' @ quote_char @ key @ quote_char @ ''='' @ quote_char @ val @
        quote_char @ '']'')"

definition build_tag_conditions :: "(string \<times> string) list \<Rightarrow> string" where
  "build_tag_conditions tgs = tag_conditions_loop tgs []"

definition way_query :: "(real \<Rightarrow> string) \<Rightarrow> BoundingBox \<Rightarrow> string \<Rightarrow> string" where
  "way_query fmt bbox tag_conditions =
     newline @ ''[bbox:'' @ to_overpass fmt bbox @ ''];'' @ newline @
     ''('' @ newline @
     ''  way'' @ tag_conditions @ '';'' @ newline @
     '');'' @ newline @
     ''out geom;'' @ newline"

definition relation_query :: "(real \<Rightarrow> string) \<Rightarrow> BoundingBox \<Rightarrow> string \<Rightarrow> string" where
  "relation_query fmt bbox tag_conditions =
     newline @ ''[bbox:'' @ to_overpass fmt bbox @ ''];'' @ newline @
     ''('' @ newline @
     ''  relation'' @ tag_conditions @ '';'' @ newline @
     '');'' @ newline @
     ''out count;'' @ newline"

text \<open>The loop of \<open>_parse_element\<close> over the nodes of the geometry.\<close>

fun project_nodes :: "json list \<Rightarrow> (json \<times> json) list \<Rightarrow> exn + (json \<times> json) list" where
  "project_nodes [] coords = Inr coords"
| "project_nodes (node # nodes) coords =
     (case py_getitem node ''lon'' of
        Inl e \<Rightarrow> Inl e
      | Inr lon \<Rightarrow>
          (case py_getitem node ''lat'' of
             Inl e \<Rightarrow> Inl e
           | Inr lat \<Rightarrow> project_nodes nodes (coords @ [(lon, lat)])))"

definition extract_coordinates :: "json \<Rightarrow> exn + (json \<times> json) list" where
  "extract_coordinates element =
     (case py_contains element ''geometry'' of
        Inl e \<Rightarrow> Inl e
      | Inr False \<Rightarrow> Inr []
      | Inr True \<Rightarrow>
          (case py_getitem element ''geometry'' of
             Inl e \<Rightarrow> Inl e
           | Inr geometry \<Rightarrow>
               (case py_iter geometry of
                  Inl e \<Rightarrow> Inl e
                | Inr nodes \<Rightarrow> project_nodes nodes [])))"

text \<open>The \<^verbatim>\<open>try\<close> block of \<open>_parse_element\<close>.\<close>

definition parse_element_try :: "json \<Rightarrow> PolygonType \<Rightarrow> exn + json polygon option" where
  "parse_element_try element pt =
     (case py_get element ''id'' JNull of
        Inl e \<Rightarrow> Inl e
      | Inr oid \<Rightarrow>
          (case py_get element ''tags'' (JObj []) of
             Inl e \<Rightarrow> Inl e
           | Inr tgs \<Rightarrow>
               (case extract_coordinates element of
                  Inl e \<Rightarrow> Inl e
                | Inr coords \<Rightarrow>
                    if coords = [] then Inr None
                    else
                      let p = \<lparr>osm_id = oid, polygon_type = pt, coordinates = coords,
                               tags = tgs, properties = JObj []\<rparr>
                      in if pt = WAY then
                           (case close p of Inl e \<Rightarrow> Inl e | Inr p1 \<Rightarrow> Inr (Some p1))
                         else Inr (Some p))))"

text \<open>\<open>_parse_element\<close>: the handler returns \<^verbatim>\<open>None\<close> for every exception of the
  \<^verbatim>\<open>try\<close> block, after a message that evaluates \<^verbatim>\<open>element.get('id')\<close> once more (which
  raises again when the element is not a dict).\<close>

definition parse_element :: "json \<Rightarrow> PolygonType \<Rightarrow> exn + json polygon option" where
  "parse_element element pt =
     (case parse_element_try element pt of
        Inr r \<Rightarrow> Inr r
      | Inl e \<Rightarrow> (case py_get element ''id'' JNull of Inl e1 \<Rightarrow> Inl e1 | Inr oid \<Rightarrow> Inr None))"

text \<open>A well-formed point of a geometry, \<^verbatim>\<open>{"lat": ..., "lon": ...}\<close>, and the pair
  \<^verbatim>\<open>[lon, lat]\<close> it stands for.\<close>

fun geometry_point :: "json \<Rightarrow> json \<times> json \<Rightarrow> bool" where
  "geometry_point (JObj fs) (lon, lat) =
     (map_of fs ''lon'' = Some lon \<and> map_of fs ''lat'' = Some lat)"
| "geometry_point v c = False"

text \<open>The loop of \<open>_query_and_parse\<close> over the elements.  An exception leaves the loop; the
  polygons saved before it stay in the cache.\<close>

fun parse_elements ::
  "PolygonType \<Rightarrow> json list \<Rightarrow> json cache \<Rightarrow> json polygon list \<Rightarrow>
   (exn + json polygon list) \<times> json cache" where
  "parse_elements pt [] c polygons = (Inr polygons, c)"
| "parse_elements pt (element # elements) c polygons =
     (case py_get element ''type'' JNull of
        Inl e \<Rightarrow> (Inl e, c)
      | Inr t \<Rightarrow>
          if t = JStr (polygon_type_value pt) then
            (case parse_element element pt of
               Inl e \<Rightarrow> (Inl e, c)
             | Inr None \<Rightarrow> parse_elements pt elements c polygons
             | Inr (Some p) \<Rightarrow>
                 (case save c p of
                    Inl e \<Rightarrow> (Inl e, c)
                  | Inr c1 \<Rightarrow> parse_elements pt elements c1 (polygons @ [p])))
          else parse_elements pt elements c polygons)"

text \<open>The \<^verbatim>\<open>try\<close> block of \<open>_query_and_parse\<close>.\<close>

definition query_and_parse_try ::
  "OverpassConfig \<Rightarrow> collaborator \<Rightarrow> string \<Rightarrow> PolygonType \<Rightarrow> state \<Rightarrow>
   (exn + json polygon list) \<times> state" where
  "query_and_parse_try cfg net query_text pt st =
     (case query cfg net query_text (world st) of
        (Inl e, w) \<Rightarrow> (Inl e, st\<lparr>world := w\<rparr>)
      | (Inr data, w) \<Rightarrow>
          if \<not> py_truthy data then (Inr [], st\<lparr>world := w\<rparr>)
          else
            (case py_contains data ''elements'' of
               Inl e \<Rightarrow> (Inl e, st\<lparr>world := w\<rparr>)
             | Inr False \<Rightarrow> (Inr [], st\<lparr>world := w\<rparr>)
             | Inr True \<Rightarrow>
                 (case py_getitem data ''elements'' of
                    Inl e \<Rightarrow> (Inl e, st\<lparr>world := w\<rparr>)
                  | Inr els \<Rightarrow>
                      (case py_iter els of
                         Inl e \<Rightarrow> (Inl e, st\<lparr>world := w\<rparr>)
                       | Inr elements \<Rightarrow>
                           (case parse_elements pt elements (cache st) [] of
                              (r, c) \<Rightarrow> (r, st\<lparr>cache := c, world := w\<rparr>))))))"

text \<open>\<open>_query_and_parse\<close>: \<^verbatim>\<open>except Exception\<close> turns every exception of the block into
  the empty list.\<close>

definition query_and_parse ::
  "OverpassConfig \<Rightarrow> collaborator \<Rightarrow> string \<Rightarrow> PolygonType \<Rightarrow> state \<Rightarrow>
   json polygon list \<times> state" where
  "query_and_parse cfg net query_text pt st =
     (case query_and_parse_try cfg net query_text pt st of
        (Inl e, st1) \<Rightarrow> ([], st1)
      | (Inr polygons, st1) \<Rightarrow> (polygons, st1))"

definition invalid_bbox_error :: "(real \<Rightarrow> string) \<Rightarrow> BoundingBox \<Rightarrow> exn" where
  "invalid_bbox_error fmt bbox = ValueError (''BoundingBox invalide: '' @ to_overpass fmt bbox)"

definition find_ways ::
  "(real \<Rightarrow> string) \<Rightarrow> OverpassConfig \<Rightarrow> collaborator \<Rightarrow> BoundingBox \<Rightarrow>
   (string \<times> string) list option \<Rightarrow> state \<Rightarrow> (exn + json polygon list) \<times> state" where
  "find_ways fmt cfg net bbox tgs st =
     (if \<not> bbox_is_valid bbox then (Inl (invalid_bbox_error fmt bbox), st)
      else
        let tgs1 = (case tgs of None \<Rightarrow> [(''building'', ''yes'')] | Some t \<Rightarrow> t);
            tag_conditions = build_tag_conditions tgs1;
            query_text = way_query fmt bbox tag_conditions
        in (case query_and_parse cfg net query_text WAY st of
              (polygons, st1) \<Rightarrow> (Inr polygons, st1)))"

definition find_relations ::
  "(real \<Rightarrow> string) \<Rightarrow> OverpassConfig \<Rightarrow> collaborator \<Rightarrow> BoundingBox \<Rightarrow>
   (string \<times> string) list option \<Rightarrow> state \<Rightarrow> (exn + json polygon list) \<times> state" where
  "find_relations fmt cfg net bbox tgs st =
     (if \<not> bbox_is_valid bbox then (Inl (invalid_bbox_error fmt bbox), st)
      else
        let tgs1 = (case tgs of None \<Rightarrow> [(''boundary'', ''administrative'')] | Some t \<Rightarrow> t);
            tag_conditions = build_tag_conditions tgs1;
            query_text = relation_query fmt bbox tag_conditions
        in (case query cfg net query_text (world st) of
              (Inl e, w) \<Rightarrow> (Inl e, st\<lparr>world := w\<rparr>)
            | (Inr data, w) \<Rightarrow> (Inr [], st\<lparr>world := w\<rparr>)))"

definition find_by_tags ::
  "(real \<Rightarrow> string) \<Rightarrow> OverpassConfig \<Rightarrow> collaborator \<Rightarrow> BoundingBox \<Rightarrow>
   (string \<times> string) list \<Rightarrow> state \<Rightarrow> (exn + json polygon list) \<times> state" where
  "find_by_tags fmt cfg net bbox tgs st = find_ways fmt cfg net bbox (Some tgs) st"

section \<open>Example values\<close>

text \<open>Concrete inputs on which the theorems below are instantiated.\<close>

definition unit_square :: "real polygon" where
  "unit_square = \<lparr>osm_id = JNum 123, polygon_type = WAY,
     coordinates = [(0, 0), (1, 0), (1, 1), (0, 1), (0, 0)],
     tags = JObj [(''building'', JStr ''yes'')], properties = JObj []\<rparr>"

definition open_path :: "real polygon" where
  "open_path = \<lparr>osm_id = JNum 456, polygon_type = RELATION,
     coordinates = [(0, 0), (1, 0), (1, 1), (0, 1)],
     tags = JObj [], properties = JObj []\<rparr>"

definition square_123 :: "json polygon" where
  "square_123 = \<lparr>osm_id = JNum 123, polygon_type = WAY,
     coordinates = [(JNum 0, JNum 0), (JNum 1, JNum 0), (JNum 1, JNum 1), (JNum 0, JNum 0)],
     tags = JObj [(''building'', JStr ''yes'')], properties = JObj []\<rparr>"

definition triangle_123 :: "json polygon" where
  "triangle_123 = \<lparr>osm_id = JNum 123, polygon_type = RELATION,
     coordinates = [(JNum 0, JNum 0), (JNum 1, JNum 0), (JNum 0, JNum 0)],
     tags = JObj [(''natural'', JStr ''water'')], properties = JObj []\<rparr>"

definition type_tagged_way :: "json polygon" where
  "type_tagged_way = \<lparr>osm_id = JNum 7, polygon_type = WAY,
     coordinates = [(JNum 0, JNum 0), (JNum 1, JNum 0), (JNum 0, JNum 0)],
     tags = JObj [(''type'', JStr ''multipolygon''), (''name'', JStr ''a'')],
     properties = JObj [(''name'', JStr ''b'')]\<rparr>"

definition one_point_way :: json where
  "one_point_way = JObj [(''type'', JStr ''way''), (''id'', JNum 1),
     (''geometry'', JArr [JObj [(''lat'', JNum 1), (''lon'', JNum 2)]])]"

definition two_point_way :: json where
  "two_point_way = JObj [(''type'', JStr ''way''), (''id'', JNum 1),
     (''geometry'', JArr [JObj [(''lat'', JNum 40), (''lon'', JNum (-74))],
                          JObj [(''lat'', JNum 41), (''lon'', JNum (-73))]]),
     (''tags'', JObj [(''building'', JStr ''yes'')])]"

definition no_geometry_way :: json where
  "no_geometry_way = JObj [(''type'', JStr ''way''), (''id'', JNum 123),
     (''tags'', JObj [(''building'', JStr ''yes'')])]"

definition one_point_parsed :: "json polygon" where
  "one_point_parsed = \<lparr>osm_id = JNum 1, polygon_type = WAY,
     coordinates = [(JNum 2, JNum 1), (JNum 2, JNum 1)],
     tags = JObj [], properties = JObj []\<rparr>"

definition two_point_parsed :: "json polygon" where
  "two_point_parsed = \<lparr>osm_id = JNum 1, polygon_type = WAY,
     coordinates = [(JNum (-74), JNum 40), (JNum (-73), JNum 41), (JNum (-74), JNum 40)],
     tags = JObj [(''building'', JStr ''yes'')], properties = JObj []\<rparr>"

definition empty_polygon :: "json polygon" where
  "empty_polygon = \<lparr>osm_id = JNum 1, polygon_type = WAY, coordinates = [],
     tags = JObj [], properties = JObj []\<rparr>"

definition config3 :: OverpassConfig where
  "config3 = \<lparr>url = ''https://overpass-api.de/api/interpreter'', timeout = 30,
     max_retries = 3, retry_delay = 1\<rparr>"

definition config2 :: OverpassConfig where
  "config2 = \<lparr>url = ''https://overpass-api.de/api/interpreter'', timeout = 30,
     max_retries = 2, retry_delay = 1 / 10\<rparr>"

definition fail_twice :: collaborator where
  "fail_twice i u q t =
     (if i < 2 then Raised (RequestException ''ConnectionError'')
      else Returned (JObj [(''elements'', JArr [])]))"

definition always_timeout :: collaborator where
  "always_timeout i u q t = Raised (RequestException ''Timeout'')"

definition paris_bbox :: BoundingBox where
  "paris_bbox = \<lparr>lat_min = 48.8155, lon_min = 2.2242, lat_max = 48.8566, lon_max = 2.3522\<rparr>"

definition reversed_bbox :: BoundingBox where
  "reversed_bbox = \<lparr>lat_min = 50, lon_min = 10, lat_max = 40, lon_max = 5\<rparr>"

definition empty_state :: state where
  "empty_state = \<lparr>cache = Map.empty, world = []\<rparr>"

definition returns_relations :: collaborator where
  "returns_relations i u q t =
     Returned (JObj [(''elements'', JArr [JObj [(''type'', JStr ''relation''), (''id'', JNum 5)]])])"

definition returns_bad_elements :: collaborator where
  "returns_bad_elements i u q t = Returned (JObj [(''elements'', JNum 5)])"

text \<open>Python's \<^verbatim>\<open>str\<close> on the coordinates of the example boxes.\<close>

definition example_fmt :: "real \<Rightarrow> string" where
  "example_fmt x =
     (if x = 48.8155 then ''48.8155'' else if x = 2.2242 then ''2.2242''
      else if x = 48.8566 then ''48.8566'' else if x = 2.3522 then ''2.3522''
      else if x = 50 then ''50.0'' else if x = 10 then ''10.0''
      else if x = 40 then ''40.0'' else ''5.0'')"

definition thin_ring :: "real polygon" where
  "thin_ring = \<lparr>osm_id = JNum 1, polygon_type = WAY,
     coordinates = [(128, 0), (- 128, 64), (0, - (1 / 2 ^ 47)), (128, 0)],
     tags = JObj [], properties = JObj []\<rparr>"

definition huge_point_ring :: "real polygon" where
  "huge_point_ring = \<lparr>osm_id = JNum 2, polygon_type = WAY,
     coordinates = [(2 ^ 600, 2 ^ 600), (2 ^ 600, 2 ^ 600), (2 ^ 600, 2 ^ 600)],
     tags = JObj [], properties = JObj []\<rparr>"

text \<open>The text of the relation query for \<open>paris_bbox\<close> and the default tags.\<close>

definition paris_relation_text :: string where
  "paris_relation_text =
     [CHR 0x0A] @ ''[bbox:(48.8155,2.2242,48.8566,2.3522)];'' @ [CHR 0x0A]
     @ ''('' @ [CHR 0x0A]
     @ ''  relation['' @ [CHR 0x22] @ ''boundary'' @ [CHR 0x22] @ ''='' @ [CHR 0x22]
     @ ''administrative'' @ [CHR 0x22] @ ''];'' @ [CHR 0x0A]
     @ '');'' @ [CHR 0x0A]
     @ ''out count;'' @ [CHR 0x0A]"

section \<open>The bounding box validator\<close>

text \<open>
  Claim C7.  \<open>is_valid\<close> of a bounding box answers false exactly when one of the six
  conditions holds: the latitudes are not strictly increasing, the longitudes are not
  strictly increasing, or one of the four coordinates is outside its range (below -90 or
  above 90 for a latitude, below -180 or above 180 for a longitude).  The box whose four
  coordinates are the extremes -90, -180, 90, 180 is valid.
\<close>

theorem bbox_is_valid_iff:
  "(\<not> bbox_is_valid b) =
     (lat_min b \<ge> lat_max b \<or> lon_min b \<ge> lon_max b \<or>
      (lat_min b < -90 \<or> 90 < lat_min b) \<or> (lat_max b < -90 \<or> 90 < lat_max b) \<or>
      (lon_min b < -180 \<or> 180 < lon_min b) \<or> (lon_max b < -180 \<or> 180 < lon_max b))
   \<and> bbox_is_valid \<lparr>lat_min = -90, lon_min = -180, lat_max = 90, lon_max = 180\<rparr>"
  by (auto simp: bbox_is_valid_def)

theorem bbox_is_valid_iff_witness:
  "bbox_is_valid \<lparr>lat_min = -90, lon_min = -180, lat_max = 90, lon_max = 180\<rparr>
   \<and> \<not> bbox_is_valid \<lparr>lat_min = 50, lon_min = 10, lat_max = 40, lon_max = 5\<rparr>"
  using bbox_is_valid_iff[of "\<lparr>lat_min = 50, lon_min = 10, lat_max = 40, lon_max = 5\<rparr>"]
  by simp

section \<open>Rounding to a double\<close>

lemma round_half_even_int: "round_half_even (of_int z) = z"
  by (simp add: round_half_even_def)

lemma round_half_even_nonneg: "0 \<le> x \<Longrightarrow> 0 \<le> round_half_even x"
  by (auto simp: round_half_even_def Let_def)

lemma double_exponent_eq:
  assumes "x \<noteq> 0" "2 powi n \<le> \<bar>x\<bar>" "\<bar>x\<bar> < 2 powi (n + 1)"
  shows "double_exponent x = max n (- 1022)"
proof -
  have a: "(2::real) powr of_int n = 2 powi n"
    by (rule powr_real_of_int') simp_all
  have b: "(2::real) powr of_int (n + 1) = 2 powi (n + 1)"
    by (rule powr_real_of_int') simp_all
  have "0 < \<bar>x\<bar>" using assms(1) by simp
  then have "\<lfloor>log 2 \<bar>x\<bar>\<rfloor> = n"
    using assms(2,3) a b floor_log_eq_powr_iff[of "\<bar>x\<bar>" 2 n] by simp
  then show ?thesis by (simp add: double_exponent_def)
qed

lemma round_double_eval:
  assumes "x \<noteq> 0" "2 powi n \<le> \<bar>x\<bar>" "\<bar>x\<bar> < 2 powi (n + 1)" "- 1022 \<le> n"
    and "round_half_even (x / 2 powi (n - 52)) = k"
    and "\<bar>of_int k * 2 powi (n - 52)\<bar> < (2::real) ^ 1024"
  shows "round_double x = Finite (of_int k * 2 powi (n - 52))"
proof -
  have "double_exponent x = n"
    using double_exponent_eq[OF assms(1-3)] assms(4) by simp
  then show ?thesis
    using assms(1,5,6) by (simp add: round_double_def Let_def)
qed

lemma double_exponent_bound:
  assumes "x = of_int m * 2 powi j" "x \<noteq> 0" "\<bar>m\<bar> < 2 ^ 53" "- 1074 \<le> j"
  shows "double_exponent x - 52 \<le> j"
proof -
  define L where "L = \<lfloor>log 2 \<bar>x\<bar>\<rfloor>"
  have pos: "0 < \<bar>x\<bar>" using assms(2) by simp
  have "2 powr of_int L \<le> \<bar>x\<bar>"
    using pos floor_log_eq_powr_iff[of "\<bar>x\<bar>" 2 L] by (simp add: L_def)
  then have l: "2 powi L \<le> \<bar>x\<bar>" by (simp add: powr_real_of_int')
  have "\<bar>x\<bar> = of_int \<bar>m\<bar> * 2 powi j"
    by (simp add: assms(1) abs_mult)
  also have "\<dots> < 2 ^ 53 * 2 powi j"
  proof -
    have "(of_int \<bar>m\<bar> :: real) < 2 ^ 53"
      using assms(3) by (metis of_int_less_numeral_power_cancel_iff)
    then show ?thesis by (simp add: mult_strict_right_mono)
  qed
  also have "\<dots> = 2 powi (53 + j)"
    by (simp add: power_int_add)
  finally have "(2::real) powi L < 2 powi (53 + j)" using l by simp
  then have "L < 53 + j"
    by (metis linorder_not_le one_le_numeral power_int_increasing)
  then show ?thesis using assms(4) by (simp add: double_exponent_def L_def)
qed

lemma round_double_exact:
  assumes "x = of_int m * 2 powi j" "\<bar>m\<bar> < 2 ^ 53" "- 1074 \<le> j" "\<bar>x\<bar> < 2 ^ 1024"
  shows "round_double x = Finite x"
proof (cases "x = 0")
  case True
  then show ?thesis by (simp add: round_double_def)
next
  case False
  define e where "e = double_exponent x - 52"
  have ej: "e \<le> j" unfolding e_def using double_exponent_bound[OF assms(1) False assms(2,3)] .
  have "x / 2 powi e = of_int m * (2 powi j / 2 powi e)"
    by (simp add: assms(1))
  also have "2 powi j / 2 powi e = (2::real) powi (j - e)"
    by (simp add: power_int_diff)
  also have "\<dots> = 2 ^ nat (j - e)"
    using ej by (simp add: power_int_def)
  finally have "x / 2 powi e = of_int (m * 2 ^ nat (j - e))" by simp
  then have "round_half_even (x / 2 powi e) = m * 2 ^ nat (j - e)"
    by (simp only: round_half_even_int)
  moreover have "of_int (m * 2 ^ nat (j - e)) * 2 powi e = x"
    using \<open>x / 2 powi e = of_int (m * 2 ^ nat (j - e))\<close> by (metis nonzero_divide_eq_eq power_int_eq_0_iff zero_neq_numeral)
  ultimately show ?thesis
    using False assms(4) by (simp add: round_double_def Let_def e_def)
qed

lemma round_double_small_int: "x \<in> \<int> \<Longrightarrow> \<bar>x\<bar> < 2 ^ 53 \<Longrightarrow> round_double x = Finite x"
proof -
  assume "x \<in> \<int>" and b: "\<bar>x\<bar> < 2 ^ 53"
  then obtain m where m: "x = of_int m" by (auto elim: Ints_cases)
  have "\<bar>m\<bar> < 2 ^ 53" using b m by (metis of_int_abs of_int_less_numeral_power_cancel_iff)
  moreover have "\<bar>x\<bar> < 2 ^ 1024" using b by (rule less_trans) simp
  ultimately show ?thesis using round_double_exact[of x m 0] m by simp
qed

lemma round_double_dyadic:
  assumes "x * 2 ^ k \<in> \<int>" "\<bar>x * 2 ^ k\<bar> < 2 ^ 53" "k \<le> 1074"
  shows "round_double x = Finite x"
proof -
  from assms(1) obtain m where m: "x * 2 ^ k = of_int m" by (auto elim: Ints_cases)
  have "\<bar>m\<bar> < 2 ^ 53"
    using assms(2) m by (metis of_int_abs of_int_less_numeral_power_cancel_iff)
  moreover have x: "x = of_int m * 2 powi (- int k)"
    using m by (simp add: power_int_minus field_simps)
  moreover have "\<bar>x\<bar> < 2 ^ 1024"
  proof -
    have "\<bar>x\<bar> \<le> \<bar>x\<bar> * 2 ^ k" by (simp add: mult_le_cancel_left1)
    also have "\<dots> = \<bar>x * 2 ^ k\<bar>" by (simp add: abs_mult)
    also have "\<dots> < 2 ^ 53" by (rule assms(2))
    also have "(2::real) ^ 53 < 2 ^ 1024" by simp
    finally show ?thesis .
  qed
  ultimately show ?thesis
    using assms(3) round_double_exact[of x m "- int k"] by simp
qed

lemma thin_tie: "round_double (8192 + 1 / 2 ^ 40) = Finite 8192"
proof -
  have "round_double (8192 + 1 / 2 ^ 40) = Finite (of_int (2 ^ 52) * 2 powi (13 - 52))"
  proof (rule round_double_eval)
    show "round_half_even ((8192 + 1 / 2 ^ 40) / 2 powi (13 - 52)) = 2 ^ 52"
      by (simp add: round_half_even_def Let_def power_int_minus)
  qed (simp_all add: power_int_minus)
  then show ?thesis by (simp add: power_int_minus)
qed

lemma round_double_nonneg: "0 \<le> x \<Longrightarrow> float_ge_zero (round_double x)"
proof -
  assume x: "0 \<le> x"
  define q :: real where "q = 2 powi (double_exponent x - 52)"
  have q: "0 < q" by (simp add: q_def)
  have "0 \<le> x / q" using x q by simp
  then have "0 \<le> round_half_even (x / q)" by (rule round_half_even_nonneg)
  then have "0 \<le> of_int (round_half_even (x / q)) * q" using q by simp
  then show ?thesis using x by (auto simp: round_double_def Let_def q_def)
qed

lemma round_double_not_NaN: "round_double x \<noteq> NaN"
  by (simp add: round_double_def Let_def)

lemma round_double_overflow:
  assumes "2 ^ 1024 \<le> x"
  shows "round_double x = PInf"
proof -
  have pos: "0 < x" using assms by (rule less_le_trans[rotated]) simp
  define L where "L = \<lfloor>log 2 \<bar>x\<bar>\<rfloor>"
  have a: "(2::real) powr of_int L = 2 powi L"
    by (rule powr_real_of_int') simp_all
  have b: "(2::real) powr of_int (L + 1) = 2 powi (L + 1)"
    by (rule powr_real_of_int') simp_all
  have bounds: "2 powi L \<le> x" "x < 2 powi (L + 1)"
    using pos a b floor_log_eq_powr_iff[of "\<bar>x\<bar>" 2 L] by (simp_all add: L_def)
  have "(2::real) powi 1024 < 2 powi (L + 1)"
    using assms bounds(2) by simp
  then have "1024 < L + 1"
    by (metis linorder_not_le one_le_numeral power_int_increasing)
  then have L: "1024 \<le> L" by simp
  then have e: "double_exponent x = L" by (simp add: double_exponent_def L_def)
  define q :: real where "q = 2 powi (L - 52)"
  have q: "0 < q" by (simp add: q_def)
  have "2 powi L / q = (2::real) powi 52"
    by (simp add: q_def flip: power_int_diff)
  moreover have "(2::real) powi 52 = 2 ^ 52"
    by (simp add: power_int_def)
  moreover have "2 powi L / q \<le> x / q"
    using bounds(1) q by (simp add: divide_right_mono)
  ultimately have "(2::real) ^ 52 \<le> x / q"
    by simp
  then have fl: "(2 ^ 52 :: int) \<le> \<lfloor>x / q\<rfloor>"
    by (simp add: le_floor_iff)
  have "\<lfloor>x / q\<rfloor> \<le> round_half_even (x / q)"
    by (simp add: round_half_even_def Let_def)
  with fl have "(2 ^ 52 :: int) \<le> round_half_even (x / q)" by linarith
  then have "(2::real) ^ 52 \<le> of_int (round_half_even (x / q))"
    by (metis of_int_le_iff of_int_numeral of_int_power)
  then have "2 ^ 52 * q \<le> of_int (round_half_even (x / q)) * q"
    using q by simp
  moreover have "2 ^ 52 * q = (2::real) powi L"
    by (simp add: q_def power_int_diff)
  moreover have "(2::real) ^ 1024 \<le> 2 powi L"
  proof -
    have "(2::real) powi 1024 \<le> 2 powi L"
      using L by (intro power_int_increasing) simp_all
    moreover have "(2::real) powi 1024 = 2 ^ 1024"
      by (simp add: power_int_def)
    ultimately show ?thesis by simp
  qed
  ultimately have "2 ^ 1024 \<le> \<bar>of_int (round_half_even (x / q)) * q\<bar>"
    by simp
  then show ?thesis
    using pos e by (simp add: round_double_def Let_def q_def)
qed

section \<open>The area of a polygon\<close>

lemma shoelace_sum_step:
  "shoelace_sum (c # d # ds) = (fst c * snd d - fst d * snd c) + shoelace_sum (d # ds)"
  by (simp add: shoelace_sum_def sum.lessThan_Suc_shift del: sum.lessThan_Suc)

lemma shoelace_sum_single: "shoelace_sum [c] = 0"
  by (simp add: shoelace_sum_def)

lemma shoelace_sum_snoc:
  "shoelace_sum (cs @ [a, b]) = shoelace_sum (cs @ [a]) + (fst a * snd b - fst b * snd a)"
proof (induction cs)
  case Nil
  show ?case using shoelace_sum_step[of a b "[]"] by (simp add: shoelace_sum_single)
next
  case (Cons c cs)
  show ?case
  proof (cases cs)
    case Nil
    then show ?thesis
      using shoelace_sum_step[of c a "[b]"] shoelace_sum_step[of a b "[]"]
        shoelace_sum_step[of c a "[]"]
      by (simp add: shoelace_sum_single)
  next
    case (Cons d ds)
    then show ?thesis
      using Cons.IH shoelace_sum_step[of c d "ds @ [a, b]"] shoelace_sum_step[of c d "ds @ [a]"]
      by simp
  qed
qed

lemma shoelace_sum_rev: "shoelace_sum (rev cs) = - shoelace_sum cs"
proof (induction cs)
  case Nil
  show ?case by (simp add: shoelace_sum_def)
next
  case (Cons c cs)
  show ?case
  proof (cases cs)
    case Nil
    then show ?thesis by (simp add: shoelace_sum_single)
  next
    case (Cons d ds)
    have "shoelace_sum (rev (c # cs)) = shoelace_sum (rev ds @ [d, c])"
      using Cons by simp
    also have "\<dots> = shoelace_sum (rev ds @ [d]) + (fst d * snd c - fst c * snd d)"
      by (rule shoelace_sum_snoc)
    also have "shoelace_sum (rev ds @ [d]) = - shoelace_sum cs"
      using Cons Cons.IH by simp
    finally show ?thesis
      using Cons shoelace_sum_step[of c d ds] by simp
  qed
qed

lemma shoelace_loop_single: "shoelace_loop [c] a = a"
  by (cases c) simp

lemma shoelace_loop_rounding_free:
  "rounding_free cs a \<Longrightarrow> shoelace_loop cs (Finite a) = Finite (a + shoelace_sum cs)"
proof (induction cs arbitrary: a)
  case Nil
  show ?case by (simp add: shoelace_sum_def)
next
  case (Cons c cs)
  show ?case
  proof (cases cs)
    case Nil
    then show ?thesis by (simp add: shoelace_loop_single shoelace_sum_single)
  next
    case (Cons d ds)
    obtain x1 y1 where c: "c = (x1, y1)" by (cases c)
    obtain x2 y2 where d: "d = (x2, y2)" by (cases d)
    define t where "t = x1 * y2 - x2 * y1"
    from Cons.prems Cons c d
    have ex: "round_double (x1 * y2) = Finite (x1 * y2)" "round_double (x2 * y1) = Finite (x2 * y1)"
      "round_double (x1 * y2 - x2 * y1) = Finite t" "round_double (a + t) = Finite (a + t)"
      and rf: "rounding_free cs (a + t)"
      by (simp_all add: exactly_double_def t_def)
    have "shoelace_loop (c # cs) (Finite a) = shoelace_loop cs (Finite (a + t))"
      using ex by (simp add: Cons c d float_mul_def float_sub_def t_def)
    also have "\<dots> = Finite (a + t + shoelace_sum cs)"
      using rf by (rule Cons.IH)
    finally show ?thesis
      using shoelace_sum_step[of c d ds] by (simp add: Cons c d t_def)
  qed
qed

lemma is_closed_rev: "is_closed (p\<lparr>coordinates := rev (coordinates p)\<rparr>) = is_closed p"
  by (cases "coordinates p = []") (auto simp: is_closed_def hd_rev last_rev)

lemma float_half_abs: "float_half (float_abs v) = NaN \<or> float_ge_zero (float_half (float_abs v))"
  by (cases v) (simp_all add: round_double_nonneg)

text \<open>
  Claim C10, as the code has it.  \<open>get_area\<close> returns NaN or a value that is not negative.
  It returns \<^verbatim>\<open>0.0\<close> for a polygon that is not closed or has fewer than 3 coordinates;
  otherwise it returns the absolute value, halved, of the shoelace sum that the loop
  accumulates from left to right in floating point.  When no operation of the loop has to
  round, this is the exact shoelace sum, halved and rounded; and when neither traversal of
  a ring has to round, the two traversals give the same area.  The exact shoelace sums of
  a ring and of its reverse are negations of each other, so in general the two computed
  areas agree up to the rounding of the operations, and not more.
\<close>

theorem get_area_shoelace:
  "(get_area p = NaN \<or> float_ge_zero (get_area p))
   \<and> (\<not> is_closed p \<or> length (coordinates p) < 3 \<longrightarrow> get_area p = Finite 0)
   \<and> (is_closed p \<and> 3 \<le> length (coordinates p) \<longrightarrow>
        get_area p = float_half (float_abs (shoelace_loop (coordinates p) (Finite 0))))
   \<and> (is_closed p \<and> 3 \<le> length (coordinates p) \<and> rounding_free (coordinates p) 0 \<longrightarrow>
        get_area p = round_double (\<bar>shoelace_sum (coordinates p)\<bar> / 2))
   \<and> (rounding_free (coordinates p) 0 \<and> rounding_free (rev (coordinates p)) 0 \<longrightarrow>
        get_area (p\<lparr>coordinates := rev (coordinates p)\<rparr>) = get_area p)
   \<and> shoelace_sum (rev (coordinates p)) = - shoelace_sum (coordinates p)"
proof -
  have a: "get_area p = NaN \<or> float_ge_zero (get_area p)"
    using float_half_abs by (simp add: get_area_def)
  have b: "\<not> is_closed p \<or> length (coordinates p) < 3 \<longrightarrow> get_area p = Finite 0"
    by (simp add: get_area_def)
  have c: "is_closed p \<and> 3 \<le> length (coordinates p) \<longrightarrow>
        get_area p = float_half (float_abs (shoelace_loop (coordinates p) (Finite 0)))"
    by (simp add: get_area_def)
  have d: "get_area q = round_double (\<bar>shoelace_sum (coordinates q)\<bar> / 2)"
    if "is_closed q" "3 \<le> length (coordinates q)" "rounding_free (coordinates q) 0"
    for q :: "real polygon"
    using that shoelace_loop_rounding_free[of "coordinates q" 0] by (simp add: get_area_def)
  have e: "get_area (p\<lparr>coordinates := rev (coordinates p)\<rparr>) = get_area p"
    if r: "rounding_free (coordinates p) 0" "rounding_free (rev (coordinates p)) 0"
  proof (cases "is_closed p \<and> 3 \<le> length (coordinates p)")
    case True
    then have "get_area p = round_double (\<bar>shoelace_sum (coordinates p)\<bar> / 2)"
      using d[of p] r(1) by simp
    moreover have "get_area (p\<lparr>coordinates := rev (coordinates p)\<rparr>)
        = round_double (\<bar>shoelace_sum (rev (coordinates p))\<bar> / 2)"
      using d[of "p\<lparr>coordinates := rev (coordinates p)\<rparr>"] True r(2) is_closed_rev[of p] by simp
    ultimately show ?thesis by (simp add: shoelace_sum_rev)
  next
    case False
    then show ?thesis using is_closed_rev[of p] by (auto simp: get_area_def)
  qed
  from a b c d[of p] e shoelace_sum_rev[of "coordinates p"] show ?thesis by blast
qed

lemma exactly_double_small_int: "x \<in> \<int> \<Longrightarrow> \<bar>x\<bar> < 2 ^ 53 \<Longrightarrow> exactly_double x"
  by (simp add: exactly_double_def round_double_small_int)

theorem get_area_shoelace_witness:
  "is_closed unit_square \<and> 3 \<le> length (coordinates unit_square)
   \<and> rounding_free (coordinates unit_square) 0
   \<and> rounding_free (rev (coordinates unit_square)) 0
   \<and> get_area unit_square = Finite 1
   \<and> get_area (unit_square\<lparr>coordinates := rev (coordinates unit_square)\<rparr>) = Finite 1
   \<and> \<not> is_closed open_path \<and> get_area open_path = Finite 0"
proof -
  have c: "is_closed unit_square \<and> 3 \<le> length (coordinates unit_square)"
    by (simp add: is_closed_def unit_square_def)
  have f: "rounding_free (coordinates unit_square) 0"
    by (simp add: unit_square_def exactly_double_small_int)
  have r: "rounding_free (rev (coordinates unit_square)) 0"
    by (simp add: unit_square_def exactly_double_small_int)
  have s: "shoelace_sum (coordinates unit_square) = 2"
    by (simp add: unit_square_def shoelace_sum_def lessThan_Suc numeral_eq_Suc)
  have o: "\<not> is_closed open_path"
    by (simp add: is_closed_def open_path_def)
  have "get_area unit_square = round_double (\<bar>shoelace_sum (coordinates unit_square)\<bar> / 2)"
    using c f get_area_shoelace[of unit_square] by blast
  then have a: "get_area unit_square = Finite 1"
    by (simp add: s round_double_small_int)
  have v: "get_area (unit_square\<lparr>coordinates := rev (coordinates unit_square)\<rparr>)
             = get_area unit_square"
    using f r get_area_shoelace[of unit_square] by blast
  have z: "get_area open_path = Finite 0"
    using o get_area_shoelace[of open_path] by blast
  from c f r a v o z show ?thesis by simp
qed

text \<open>The claim as stated says that the area is never negative and that both traversals of
  a ring give the same area.  The closed ring (128, 0), (-128, 64), (0, -2^-47), (128, 0),
  whose coordinates are degrees in range, has the area 4096, and \<open>4096 + 2 ^ - 40\<close> when
  traversed in the opposite direction: going forward, each of the two additions of
  \<open>2 ^ - 40\<close> to 8192 is a tie that is rounded back to 8192.  The ring of three equal points
  (2^600, 2^600) has the area NaN, its products being infinite.\<close>

theorem get_area_depends_on_orientation:
  "get_area thin_ring = Finite 4096
   \<and> get_area (thin_ring\<lparr>coordinates := rev (coordinates thin_ring)\<rparr>) = Finite (4096 + 1 / 2 ^ 40)
   \<and> get_area huge_point_ring = NaN
   \<and> \<not> float_ge_zero (get_area huge_point_ring)"
proof -
  have e1: "round_double (1 / 2 ^ 40) = Finite (1 / 2 ^ 40)"
    by (rule round_double_dyadic[where k = 40]) simp_all
  have e2: "round_double (- (1 / 2 ^ 40)) = Finite (- (1 / 2 ^ 40))"
    by (rule round_double_dyadic[where k = 40]) simp_all
  have e3: "round_double (- (1 / 2 ^ 39)) = Finite (- (1 / 2 ^ 39))"
    by (rule round_double_dyadic[where k = 39]) simp_all
  have e4: "round_double (- 8192 - 1 / 2 ^ 39) = Finite (- 8192 - 1 / 2 ^ 39)"
    by (rule round_double_dyadic[where k = 39]) simp_all
  have e5: "round_double (4096 + 1 / 2 ^ 40) = Finite (4096 + 1 / 2 ^ 40)"
    by (rule round_double_dyadic[where k = 40]) simp_all
  have a: "get_area thin_ring = Finite 4096"
    by (simp add: get_area_def is_closed_def thin_ring_def float_mul_def float_sub_def
      round_double_small_int e1[simplified] e2[simplified] thin_tie[simplified])
  have b: "get_area (thin_ring\<lparr>coordinates := rev (coordinates thin_ring)\<rparr>)
             = Finite (4096 + 1 / 2 ^ 40)"
    by (simp add: get_area_def is_closed_def thin_ring_def float_mul_def float_sub_def
      round_double_small_int e1[simplified] e2[simplified] e3[simplified] e4[simplified]
      e5[simplified])
  have o: "round_double (2 ^ 600 * 2 ^ 600) = PInf"
    by (rule round_double_overflow) (simp flip: power_add)
  have c: "get_area huge_point_ring = NaN"
    by (simp add: get_area_def is_closed_def huge_point_ring_def float_mul_def float_sub_def
      o[simplified])
  from a b c show ?thesis by simp
qed

section \<open>Closing a polygon\<close>

lemma close_nonempty:
  "coordinates p \<noteq> [] \<Longrightarrow>
   close p = Inr (if is_closed p then p else p\<lparr>coordinates := coordinates p @ [hd (coordinates p)]\<rparr>)"
  by (cases "coordinates p") (simp_all add: close_def)

lemma close_empty: "coordinates p = [] \<Longrightarrow> close p = Inl IndexError"
  by (simp add: close_def is_closed_def)

lemma close_closed: "is_closed p \<Longrightarrow> close p = Inr p"
  by (simp add: close_def)

section \<open>The cache\<close>

text \<open>
  Claim C8.  For two polygons with the same (hashable) \<open>osm_id\<close>, \<open>save\<close> of the first and
  then of the second leaves the cache as it was before, but for the one entry under that
  id, which holds the second polygon: the second save adds no entry (the domain and the
  size of the cache do not change) and nothing of the first polygon remains.  \<open>delete\<close> of
  an id that is not in the cache returns \<^verbatim>\<open>False\<close>, raises nothing and leaves the cache
  alone; \<open>delete\<close> of an id that is in the cache returns \<^verbatim>\<open>True\<close> and removes the entry.
\<close>

theorem save_last_write_wins:
  "(py_hashable (osm_id p) \<and> osm_id q = osm_id p \<longrightarrow>
      save c p = Inr (c(osm_id p \<mapsto> p))
      \<and> save (c(osm_id p \<mapsto> p)) q = Inr (c(osm_id p \<mapsto> q))
      \<and> find_by_id (c(osm_id p \<mapsto> q)) (osm_id p) = Inr (Some q)
      \<and> dom (c(osm_id p \<mapsto> q)) = dom (c(osm_id p \<mapsto> p))
      \<and> get_cache_size (c(osm_id p \<mapsto> q)) = get_cache_size (c(osm_id p \<mapsto> p)))
   \<and> (py_hashable i \<and> c i = None \<longrightarrow> delete c i = Inr (False, c))
   \<and> (py_hashable i \<and> c i = Some r \<longrightarrow>
        delete c i = Inr (True, c(i := None)) \<and> find_by_id (c(i := None)) i = Inr None)"
  by (auto simp: save_def delete_def find_by_id_def get_cache_size_def)

theorem save_last_write_wins_witness:
  "save Map.empty square_123 = Inr [JNum 123 \<mapsto> square_123]
   \<and> save [JNum 123 \<mapsto> square_123] triangle_123 = Inr [JNum 123 \<mapsto> triangle_123]
   \<and> find_by_id [JNum 123 \<mapsto> triangle_123] (JNum 123) = Inr (Some triangle_123)
   \<and> get_cache_size [JNum 123 \<mapsto> triangle_123] = get_cache_size [JNum 123 \<mapsto> square_123]
   \<and> delete (Map.empty :: json cache) (JNum 999) = Inr (False, Map.empty)
   \<and> delete [JNum 123 \<mapsto> triangle_123] (JNum 123) = Inr (True, Map.empty)"
  using save_last_write_wins[where p = square_123 and q = triangle_123 and c = Map.empty
          and i = "JNum 999"]
        save_last_write_wins[where p = square_123 and q = triangle_123
          and c = "[JNum 123 \<mapsto> triangle_123]" and i = "JNum 123" and r = triangle_123]
  by (simp add: square_123_def triangle_123_def)

section \<open>The GeoJSON feature\<close>

lemma features_of_each:
  "features_of polygons = Inr fs \<Longrightarrow>
   list_all2 (\<lambda>p f. to_geojson_feature p = Inr f) polygons fs"
  by (induction polygons arbitrary: fs) (auto split: sum.splits)

text \<open>
  Claim C5, as the code has it.  For a polygon whose tags and properties are dicts, the
  properties of its feature hold, for every key: the entry of the polygon's properties if
  it has one; otherwise the entry of the tags if they have one; otherwise the computed
  \<open>osm_id\<close> or \<open>type\<close> (the value of the polygon type).  So a later source replaces an
  earlier one on every collision: a tag named \<open>osm_id\<close> or \<open>type\<close> replaces the computed
  entry, and the polygon's properties replace both.  \<open>convert_to_geojson\<close> makes one
  such feature for each polygon, in order.
\<close>

theorem geojson_properties_merge:
  "(tags p = JObj ts \<and> properties p = JObj ps \<longrightarrow>
     (\<exists>f. to_geojson_feature p = Inr f
        \<and> geometry_coordinates f = [coordinates p]
        \<and> (\<forall>k. feature_properties f k =
              (case map_of ps k of
                 Some v \<Rightarrow> Some v
               | None \<Rightarrow>
                  (case map_of ts k of
                     Some v \<Rightarrow> Some v
                   | None \<Rightarrow>
                      if k = ''osm_id'' then Some (osm_id p)
                      else if k = ''type'' then Some (JStr (polygon_type_value (polygon_type p)))
                      else None)))))
   \<and> (convert_to_geojson polygons = Inr fc \<longrightarrow>
        collection_type fc = ''FeatureCollection''
        \<and> list_all2 (\<lambda>p f. to_geojson_feature p = Inr f) polygons (features fc))"
proof -
  have a: "tags p = JObj ts \<and> properties p = JObj ps \<longrightarrow>
     (\<exists>f. to_geojson_feature p = Inr f
        \<and> geometry_coordinates f = [coordinates p]
        \<and> (\<forall>k. feature_properties f k =
              (case map_of ps k of
                 Some v \<Rightarrow> Some v
               | None \<Rightarrow>
                  (case map_of ts k of
                     Some v \<Rightarrow> Some v
                   | None \<Rightarrow>
                      if k = ''osm_id'' then Some (osm_id p)
                      else if k = ''type'' then Some (JStr (polygon_type_value (polygon_type p)))
                      else None))))"
    by (auto simp: to_geojson_feature_def map_add_def split: option.splits)
  have b: "convert_to_geojson polygons = Inr fc \<longrightarrow>
        collection_type fc = ''FeatureCollection''
        \<and> list_all2 (\<lambda>p f. to_geojson_feature p = Inr f) polygons (features fc)"
    by (auto simp: convert_to_geojson_def features_of_each split: sum.splits)
  from a b show ?thesis by blast
qed

theorem geojson_properties_merge_witness:
  "(case to_geojson_feature type_tagged_way of
      Inl e \<Rightarrow> []
    | Inr f \<Rightarrow> map (feature_properties f) [''osm_id'', ''type'', ''name'', ''height''])
   = [Some (JNum 7), Some (JStr ''multipolygon''), Some (JStr ''b''), None]
   \<and> (case convert_to_geojson [type_tagged_way] of
         Inl e \<Rightarrow> []
       | Inr fc \<Rightarrow> map (\<lambda>f. feature_properties f ''name'') (features fc))
      = [Some (JStr ''b'')]"
proof -
  have "tags type_tagged_way = JObj [(''type'', JStr ''multipolygon''), (''name'', JStr ''a'')]
      \<and> properties type_tagged_way = JObj [(''name'', JStr ''b'')]"
    by (simp add: type_tagged_way_def)
  then obtain f where f: "to_geojson_feature type_tagged_way = Inr f"
    and k: "\<forall>k. feature_properties f k =
              (case map_of [(''name'', JStr ''b'')] k of
                 Some v \<Rightarrow> Some v
               | None \<Rightarrow>
                  (case map_of [(''type'', JStr ''multipolygon''), (''name'', JStr ''a'')] k of
                     Some v \<Rightarrow> Some v
                   | None \<Rightarrow>
                      if k = ''osm_id'' then Some (osm_id type_tagged_way)
                      else if k = ''type'' then Some (JStr (polygon_type_value (polygon_type type_tagged_way)))
                      else None))"
    using geojson_properties_merge[of type_tagged_way
        "[(''type'', JStr ''multipolygon''), (''name'', JStr ''a'')]" "[(''name'', JStr ''b'')]"]
    by blast
  have c: "convert_to_geojson [type_tagged_way] =
             Inr \<lparr>collection_type = ''FeatureCollection'', features = [f]\<rparr>"
    using f by (simp add: convert_to_geojson_def)
  have "list_all2 (\<lambda>p f. to_geojson_feature p = Inr f) [type_tagged_way] [f]"
    using c geojson_properties_merge[where polygons = "[type_tagged_way]"
        and fc = "\<lparr>collection_type = ''FeatureCollection'', features = [f]\<rparr>",
        THEN conjunct2]
    by simp
  then show ?thesis using f k c by (simp add: type_tagged_way_def)
qed

text \<open>The claim as stated says that tags do not replace the computed entries.  A way with
  the tag \<open>type = multipolygon\<close> and no property named \<open>type\<close> has the feature property
  \<open>type = multipolygon\<close>, not \<open>way\<close>.\<close>

theorem geojson_tag_replaces_type:
  "(case to_geojson_feature type_tagged_way of
      Inl e \<Rightarrow> None
    | Inr f \<Rightarrow> feature_properties f ''type'') = Some (JStr ''multipolygon'')
   \<and> polygon_type_value (polygon_type type_tagged_way) = ''way''
   \<and> properties type_tagged_way = JObj [(''name'', JStr ''b'')]"
  by (simp add: to_geojson_feature_def type_tagged_way_def)

section \<open>The element parser\<close>

lemma py_get_not_IndexError: "py_get v k d \<noteq> Inl IndexError"
  by (cases v) simp_all

lemma py_getitem_not_IndexError: "py_getitem v k \<noteq> Inl IndexError"
  by (cases v) (simp_all split: option.splits)

lemma py_contains_not_IndexError: "py_contains v k \<noteq> Inl IndexError"
  by (cases v) simp_all

lemma py_iter_not_IndexError: "py_iter v \<noteq> Inl IndexError"
  by (cases v) simp_all

lemma project_nodes_not_IndexError: "project_nodes nodes coords \<noteq> Inl IndexError"
  by (induction nodes arbitrary: coords)
     (auto simp: py_getitem_not_IndexError split: sum.splits)

lemma extract_coordinates_not_IndexError: "extract_coordinates element \<noteq> Inl IndexError"
  by (auto simp: extract_coordinates_def py_contains_not_IndexError py_getitem_not_IndexError
      py_iter_not_IndexError project_nodes_not_IndexError split: sum.splits bool.splits)

lemma project_nodes_points:
  "list_all2 geometry_point nodes cs \<Longrightarrow> project_nodes nodes acc = Inr (acc @ cs)"
proof (induction nodes cs arbitrary: acc rule: list_all2_induct)
  case Nil
  show ?case by simp
next
  case (Cons node nodes c cs)
  obtain lon lat where c: "c = (lon, lat)" by (cases c)
  from Cons.hyps(1) c obtain fs where n: "node = JObj fs"
    and l: "map_of fs ''lon'' = Some lon" "map_of fs ''lat'' = Some lat"
    by (cases node) auto
  show ?case using Cons.IH[of "acc @ [c]"] by (simp add: n l c)
qed

lemma extract_coordinates_points:
  "map_of kvs ''geometry'' = Some (JArr nodes) \<Longrightarrow> list_all2 geometry_point nodes cs \<Longrightarrow>
   extract_coordinates (JObj kvs) = Inr cs"
  by (simp add: extract_coordinates_def project_nodes_points)

lemma extract_coordinates_absent:
  "map_of kvs ''geometry'' = None \<Longrightarrow> extract_coordinates (JObj kvs) = Inr []"
  by (simp add: extract_coordinates_def)

text \<open>What the \<^verbatim>\<open>try\<close> block returns for a dict once the coordinates are known.\<close>

lemma parse_element_try_coords:
  "extract_coordinates (JObj kvs) = Inr cs \<Longrightarrow>
   parse_element_try (JObj kvs) pt =
     (if cs = [] then Inr None
      else Inr (Some
        (let p = \<lparr>osm_id = (case map_of kvs ''id'' of None \<Rightarrow> JNull | Some v \<Rightarrow> v),
                  polygon_type = pt, coordinates = cs,
                  tags = (case map_of kvs ''tags'' of None \<Rightarrow> JObj [] | Some v \<Rightarrow> v),
                  properties = JObj []\<rparr>
         in if pt = WAY \<and> \<not> is_closed p then p\<lparr>coordinates := cs @ [hd cs]\<rparr> else p)))"
  by (simp add: parse_element_try_def Let_def close_nonempty)

lemma parse_element_dict:
  "parse_element (JObj kvs) pt =
     (case parse_element_try (JObj kvs) pt of Inr r \<Rightarrow> Inr r | Inl e \<Rightarrow> Inr None)"
  by (simp add: parse_element_def split: sum.splits)

lemma parse_elements_skip:
  "parse_element (JObj kvs) pt = Inr None \<Longrightarrow>
   parse_elements pt (JObj kvs # rest) c acc = parse_elements pt rest c acc"
  by simp

lemma parse_element_Some_try:
  "parse_element element pt = Inr (Some p) \<Longrightarrow> parse_element_try element pt = Inr (Some p)"
  by (auto simp: parse_element_def split: sum.splits)

lemma parse_element_try_way:
  assumes "parse_element_try element WAY = Inr (Some p)"
  shows "\<exists>cs p0. extract_coordinates element = Inr cs \<and> cs \<noteq> [] \<and> coordinates p0 = cs
           \<and> p = (if is_closed p0 then p0 else p0\<lparr>coordinates := cs @ [hd cs]\<rparr>)"
proof -
  from assms obtain oid tgs cs where e: "extract_coordinates element = Inr cs"
    and ne: "cs \<noteq> []"
    and c: "close \<lparr>osm_id = oid, polygon_type = WAY, coordinates = cs, tags = tgs,
                    properties = JObj []\<rparr> = Inr p"
    by (auto simp: parse_element_try_def Let_def split: sum.splits if_splits)
  define p0 :: "json polygon" where
    "p0 = \<lparr>osm_id = oid, polygon_type = WAY, coordinates = cs, tags = tgs, properties = JObj []\<rparr>"
  have "coordinates p0 = cs" by (simp add: p0_def)
  moreover have "p = (if is_closed p0 then p0 else p0\<lparr>coordinates := cs @ [hd cs]\<rparr>)"
    using c ne close_nonempty[of p0] by (simp add: p0_def)
  ultimately show ?thesis using e ne by blast
qed

lemma parse_one_point_way: "parse_element one_point_way WAY = Inr (Some one_point_parsed)"
  by (simp add: parse_element_def parse_element_try_def extract_coordinates_def
      one_point_way_def one_point_parsed_def close_def is_closed_def)

lemma parse_two_point_way: "parse_element two_point_way WAY = Inr (Some two_point_parsed)"
  by (simp add: parse_element_def parse_element_try_def extract_coordinates_def
      two_point_way_def two_point_parsed_def close_def is_closed_def)

text \<open>
  Claim C9.  \<open>close\<close> on a polygon without coordinates fails with the \<^verbatim>\<open>IndexError\<close> of
  \<^verbatim>\<open>self.coordinates[0]\<close>; on a polygon with at least one coordinate it returns.  The
  parser never meets the failure: for no element and no polygon type does the \<^verbatim>\<open>try\<close>
  block of \<open>_parse_element\<close>, or \<open>_parse_element\<close> itself, end with an \<^verbatim>\<open>IndexError\<close>, the
  elements with an absent or empty geometry being turned away before \<open>close\<close> is called.
\<close>

theorem close_empty_fails_parser_guarded:
  "(coordinates p = [] \<longrightarrow> close p = Inl IndexError)
   \<and> (coordinates p \<noteq> [] \<longrightarrow> (\<exists>p1. close p = Inr p1))
   \<and> parse_element_try element pt \<noteq> Inl IndexError
   \<and> parse_element element pt \<noteq> Inl IndexError"
proof -
  have a: "coordinates p = [] \<longrightarrow> close p = Inl IndexError"
    by (simp add: close_empty)
  have b: "coordinates p \<noteq> [] \<longrightarrow> (\<exists>p1. close p = Inr p1)"
    by (simp add: close_nonempty)
  have c: "parse_element_try element pt \<noteq> Inl IndexError"
    by (auto simp: parse_element_try_def Let_def py_get_not_IndexError
        extract_coordinates_not_IndexError close_nonempty split: sum.splits)
  have d: "parse_element element pt \<noteq> Inl IndexError"
    by (auto simp: parse_element_def py_get_not_IndexError split: sum.splits)
  from a b c d show ?thesis by blast
qed

theorem close_empty_fails_parser_guarded_witness:
  "close empty_polygon = Inl IndexError
   \<and> close one_point_parsed =
       Inr (one_point_parsed\<lparr>coordinates := [(JNum 2, JNum 1), (JNum 2, JNum 1), (JNum 2, JNum 1)]\<rparr>)
   \<and> parse_element no_geometry_way WAY = Inr None"
proof -
  have "close empty_polygon = Inl IndexError"
    using close_empty_fails_parser_guarded[where p = empty_polygon]
    by (simp add: empty_polygon_def)
  moreover have "\<exists>p1. close one_point_parsed = Inr p1"
    using close_empty_fails_parser_guarded[where p = one_point_parsed]
    by (simp add: one_point_parsed_def)
  moreover have "close one_point_parsed =
       Inr (one_point_parsed\<lparr>coordinates := [(JNum 2, JNum 1), (JNum 2, JNum 1), (JNum 2, JNum 1)]\<rparr>)"
    by (simp add: one_point_parsed_def close_def is_closed_def)
  moreover have "parse_element no_geometry_way WAY = Inr None"
    by (simp add: parse_element_def parse_element_try_def extract_coordinates_def
        no_geometry_way_def)
  ultimately show ?thesis by simp
qed

text \<open>
  Claim C6, as the code has it.  An element that is a dict with a geometry of at least one
  well-formed point is parsed into a polygon whose coordinates are the points in
  \<^verbatim>\<open>[lon, lat]\<close> order, in input order, followed, when the polygon type is \<open>WAY\<close> and these
  coordinates are not closed (fewer than 3, or the first differs from the last), by one
  more copy of the first.  A dict without a geometry field, or whose coordinates come out
  empty, yields \<^verbatim>\<open>None\<close>, and the loop over the batch goes on with the next element, the
  cache and the polygons found so far unchanged.
\<close>

theorem parse_element_coordinates:
  "(element = JObj kvs \<and> map_of kvs ''geometry'' = Some (JArr nodes)
      \<and> list_all2 geometry_point nodes cs \<and> cs \<noteq> [] \<longrightarrow>
      (\<exists>p. parse_element element pt = Inr (Some p)
         \<and> coordinates p =
             (if pt = WAY \<and> \<not> (3 \<le> length cs \<and> hd cs = last cs) then cs @ [hd cs] else cs)))
   \<and> (element = JObj kvs
        \<and> (map_of kvs ''geometry'' = None \<or> extract_coordinates element = Inr []) \<longrightarrow>
        parse_element element pt = Inr None
        \<and> parse_elements pt (element # rest) c acc = parse_elements pt rest c acc)"
proof -
  have a: "\<exists>p. parse_element element pt = Inr (Some p)
         \<and> coordinates p =
             (if pt = WAY \<and> \<not> (3 \<le> length cs \<and> hd cs = last cs) then cs @ [hd cs] else cs)"
    if "element = JObj kvs" "map_of kvs ''geometry'' = Some (JArr nodes)"
       "list_all2 geometry_point nodes cs" "cs \<noteq> []"
  proof -
    have "extract_coordinates (JObj kvs) = Inr cs"
      using that by (simp add: extract_coordinates_points)
    then show ?thesis
      using that(1,4)
      by (auto simp: parse_element_dict parse_element_try_coords Let_def is_closed_def not_less)
  qed
  have b: "parse_element element pt = Inr None
        \<and> parse_elements pt (element # rest) c acc = parse_elements pt rest c acc"
    if "element = JObj kvs" "map_of kvs ''geometry'' = None \<or> extract_coordinates element = Inr []"
  proof -
    have "extract_coordinates (JObj kvs) = Inr []"
      using that by (auto simp: extract_coordinates_absent)
    then have "parse_element (JObj kvs) pt = Inr None"
      by (simp add: parse_element_dict parse_element_try_coords)
    then show ?thesis
      using that(1) parse_elements_skip by simp
  qed
  from a b show ?thesis by blast
qed

theorem parse_element_coordinates_witness:
  "parse_element two_point_way RELATION =
      Inr (Some (two_point_parsed\<lparr>polygon_type := RELATION,
         coordinates := [(JNum (-74), JNum 40), (JNum (-73), JNum 41)]\<rparr>))
   \<and> parse_element no_geometry_way WAY = Inr None
   \<and> fst (parse_elements WAY [no_geometry_way, two_point_way] Map.empty []) = Inr [two_point_parsed]"
proof -
  have g: "list_all2 geometry_point
             [JObj [(''lat'', JNum 40), (''lon'', JNum (-74))],
              JObj [(''lat'', JNum 41), (''lon'', JNum (-73))]]
             [(JNum (-74), JNum 40), (JNum (-73), JNum 41)]"
    by simp
  have r: "parse_element two_point_way RELATION =
      Inr (Some (two_point_parsed\<lparr>polygon_type := RELATION,
         coordinates := [(JNum (-74), JNum 40), (JNum (-73), JNum 41)]\<rparr>))"
    by (simp add: parse_element_def parse_element_try_def extract_coordinates_def
      two_point_way_def two_point_parsed_def)
  have ty: "py_get two_point_way ''type'' JNull = Inr (JStr ''way'')"
    by (simp add: two_point_way_def)
  have sv: "save Map.empty two_point_parsed = Inr [JNum 1 \<mapsto> two_point_parsed]"
    by (simp add: save_def two_point_parsed_def)
  have s: "parse_elements WAY [two_point_way] Map.empty [] =
             (Inr [two_point_parsed], [JNum 1 \<mapsto> two_point_parsed])"
    by (simp add: ty sv parse_two_point_way)
  have n: "parse_element no_geometry_way WAY = Inr None
     \<and> parse_elements WAY (no_geometry_way # [two_point_way]) Map.empty []
         = parse_elements WAY [two_point_way] Map.empty []"
    using parse_element_coordinates[where element = no_geometry_way and pt = WAY
        and kvs = "[(''type'', JStr ''way''), (''id'', JNum 123),
                    (''tags'', JObj [(''building'', JStr ''yes'')])]"]
    by (simp add: no_geometry_way_def)
  have t: "\<exists>p. parse_element two_point_way RELATION = Inr (Some p)
         \<and> coordinates p = [(JNum (-74), JNum 40), (JNum (-73), JNum 41)]"
    using g parse_element_coordinates[where element = two_point_way and pt = RELATION
        and cs = "[(JNum (-74), JNum 40), (JNum (-73), JNum 41)]"
        and nodes = "[JObj [(''lat'', JNum 40), (''lon'', JNum (-74))],
              JObj [(''lat'', JNum 41), (''lon'', JNum (-73))]]"
        and kvs = "[(''type'', JStr ''way''), (''id'', JNum 1),
     (''geometry'', JArr [JObj [(''lat'', JNum 40), (''lon'', JNum (-74))],
                          JObj [(''lat'', JNum 41), (''lon'', JNum (-73))]]),
     (''tags'', JObj [(''building'', JStr ''yes'')])]"]
    by (simp add: two_point_way_def)
  from r s n t show ?thesis by simp
qed

text \<open>The claim as stated says that the coordinates are exactly the projected points.  A
  way with a geometry of two points is parsed into a polygon of three coordinates.\<close>

theorem two_point_way_gets_third_coordinate:
  "parse_element two_point_way WAY = Inr (Some two_point_parsed)
   \<and> extract_coordinates two_point_way = Inr [(JNum (-74), JNum 40), (JNum (-73), JNum 41)]
   \<and> coordinates two_point_parsed
       = [(JNum (-74), JNum 40), (JNum (-73), JNum 41), (JNum (-74), JNum 40)]
   \<and> coordinates two_point_parsed \<noteq> [(JNum (-74), JNum 40), (JNum (-73), JNum 41)]"
  by (simp add: parse_two_point_way)
     (simp add: extract_coordinates_def two_point_way_def two_point_parsed_def)

text \<open>
  Claim C4, as the code has it.  A polygon that \<open>_parse_element\<close> returns for the type
  \<open>WAY\<close> has a first coordinate equal to its last one.  When the geometry had at least two
  points, closing it again changes nothing.  When the geometry had one point, the parser
  returns that point twice, and closing again appends it a third time: \<open>is_closed\<close> is
  false for every polygon of fewer than 3 coordinates.
\<close>

theorem parsed_way_closed:
  "parse_element element WAY = Inr (Some p) \<longrightarrow>
     coordinates p \<noteq> [] \<and> hd (coordinates p) = last (coordinates p)
     \<and> (\<exists>cs. extract_coordinates element = Inr cs \<and> cs \<noteq> []
           \<and> (2 \<le> length cs \<longrightarrow> close p = Inr p)
           \<and> (length cs = 1 \<longrightarrow>
                 coordinates p = cs @ cs \<and> close p = Inr (p\<lparr>coordinates := cs @ cs @ cs\<rparr>)))"
proof
  assume "parse_element element WAY = Inr (Some p)"
  then have "parse_element_try element WAY = Inr (Some p)"
    by (rule parse_element_Some_try)
  then obtain cs p0 where e: "extract_coordinates element = Inr cs" and ne: "cs \<noteq> []"
    and c0: "coordinates p0 = cs"
    and p: "p = (if is_closed p0 then p0 else p0\<lparr>coordinates := cs @ [hd cs]\<rparr>)"
    using parse_element_try_way by blast
  have h: "coordinates p \<noteq> [] \<and> hd (coordinates p) = last (coordinates p)"
    using ne c0 p by (auto simp: is_closed_def split: if_splits)
  have two: "close p = Inr p" if "2 \<le> length cs"
  proof -
    have "is_closed p"
      using that ne c0 p by (auto simp: is_closed_def split: if_splits)
    then show ?thesis by (rule close_closed)
  qed
  have one: "coordinates p = cs @ cs \<and> close p = Inr (p\<lparr>coordinates := cs @ cs @ cs\<rparr>)"
    if "length cs = 1"
  proof -
    from that obtain x where x: "cs = [x]" by (cases cs) auto
    have "\<not> is_closed p0" using c0 x by (simp add: is_closed_def)
    then have "p = p0\<lparr>coordinates := [x, x]\<rparr>" using p x by simp
    then show ?thesis using x by (simp add: close_def is_closed_def)
  qed
  from h e ne two one
  show "coordinates p \<noteq> [] \<and> hd (coordinates p) = last (coordinates p)
     \<and> (\<exists>cs. extract_coordinates element = Inr cs \<and> cs \<noteq> []
           \<and> (2 \<le> length cs \<longrightarrow> close p = Inr p)
           \<and> (length cs = 1 \<longrightarrow>
                 coordinates p = cs @ cs \<and> close p = Inr (p\<lparr>coordinates := cs @ cs @ cs\<rparr>)))"
    by blast
qed

theorem parsed_way_closed_witness:
  "parse_element two_point_way WAY = Inr (Some two_point_parsed)
   \<and> hd (coordinates two_point_parsed) = last (coordinates two_point_parsed)
   \<and> close two_point_parsed = Inr two_point_parsed
   \<and> parse_element one_point_way WAY = Inr (Some one_point_parsed)
   \<and> hd (coordinates one_point_parsed) = last (coordinates one_point_parsed)"
proof -
  have e: "extract_coordinates two_point_way = Inr [(JNum (-74), JNum 40), (JNum (-73), JNum 41)]"
    by (simp add: extract_coordinates_def two_point_way_def)
  show ?thesis
    using parsed_way_closed[of two_point_way two_point_parsed]
      parsed_way_closed[of one_point_way one_point_parsed]
      parse_two_point_way parse_one_point_way e
    by auto
qed

text \<open>The claim as stated says that closing again keeps the length also for a geometry of
  one point.  The way with one point is parsed into two coordinates, and \<open>close\<close> makes
  them three.\<close>

theorem one_point_way_close_again:
  "parse_element one_point_way WAY = Inr (Some one_point_parsed)
   \<and> length (coordinates one_point_parsed) = 2
   \<and> close one_point_parsed =
       Inr (one_point_parsed\<lparr>coordinates := [(JNum 2, JNum 1), (JNum 2, JNum 1), (JNum 2, JNum 1)]\<rparr>)"
  by (simp add: parse_one_point_way) (simp add: one_point_parsed_def close_def is_closed_def)

section \<open>The retrying client\<close>

lemma fetch_count_append: "fetch_count (w @ v) = fetch_count w + fetch_count v"
  by (simp add: fetch_count_def)

lemma fetch_count_failed_attempts: "fetch_count (failed_attempts cfg ql a k) = k"
  by (induction k arbitrary: a) (simp_all add: fetch_count_def)

lemma sleeps_of_append: "sleeps_of (w @ v) = sleeps_of w @ sleeps_of v"
  by (induction w rule: sleeps_of.induct) simp_all

lemma sleeps_of_failed_attempts:
  "sleeps_of (failed_attempts cfg ql a k) = map (\<lambda>i. retry_delay cfg * 2 ^ i) [a..<a + k]"
proof (induction k arbitrary: a)
  case 0
  show ?case by simp
next
  case (Suc k)
  have "[a..<a + Suc k] = a # [Suc a..<Suc a + k]"
    by (simp add: upt_conv_Cons)
  then show ?case using Suc.IH[of "Suc a"] by simp
qed

lemma py_range_from:
  "a < n \<Longrightarrow> map int [a..<n] = int a # map int [Suc a..<n]"
  by (simp add: upt_conv_Cons)

text \<open>\<open>k\<close> failures in a row, from attempt \<open>a\<close> on and with budget left, take the loop to
  attempt \<open>a + k\<close>.\<close>

lemma query_attempts_failures:
  assumes "\<forall>i<k. \<exists>e. net (fetch_count w + i) (url cfg) ql (timeout cfg) = Raised e
                       \<and> is_RequestException e"
    and "int (a + k) < max_retries cfg"
  shows "query_attempts cfg net ql (map int [a..<nat (max_retries cfg)]) w =
         query_attempts cfg net ql (map int [a + k..<nat (max_retries cfg)])
           (w @ failed_attempts cfg ql a k)"
  using assms
proof (induction k arbitrary: a w)
  case 0
  show ?case by simp
next
  case (Suc k)
  from Suc.prems(1) obtain e where e: "net (fetch_count w) (url cfg) ql (timeout cfg) = Raised e"
    "is_RequestException e" by force
  have lt: "a < nat (max_retries cfg)" "int a < max_retries cfg - 1"
    using Suc.prems(2) by auto
  define w1 where "w1 = w @ [Fetch (url cfg) ql (timeout cfg), Sleep (retry_delay cfg * 2 ^ a)]"
  have fc: "fetch_count w1 = Suc (fetch_count w)"
    by (simp add: w1_def fetch_count_def)
  have step: "query_attempts cfg net ql (map int [a..<nat (max_retries cfg)]) w =
              query_attempts cfg net ql (map int [Suc a..<nat (max_retries cfg)]) w1"
    using e lt(2) by (subst py_range_from[OF lt(1)]) (simp add: requests_get_def time_sleep_def w1_def)
  have "\<forall>i<k. \<exists>e. net (fetch_count w1 + i) (url cfg) ql (timeout cfg) = Raised e
                       \<and> is_RequestException e"
  proof (intro allI impI)
    fix i assume "i < k"
    then have "Suc i < Suc k" by simp
    with Suc.prems(1) show "\<exists>e. net (fetch_count w1 + i) (url cfg) ql (timeout cfg) = Raised e
                       \<and> is_RequestException e"
      unfolding fc by (metis add_Suc_shift)
  qed
  moreover have "int (Suc a + k) < max_retries cfg"
    using Suc.prems(2) by simp
  ultimately have "query_attempts cfg net ql (map int [Suc a..<nat (max_retries cfg)]) w1 =
         query_attempts cfg net ql (map int [Suc a + k..<nat (max_retries cfg)])
           (w1 @ failed_attempts cfg ql (Suc a) k)"
    by (rule Suc.IH)
  with step show ?case by (simp add: w1_def)
qed

text \<open>
  Claim C1.  Let the first \<open>k\<close> fetches of a query fail with an exception of the
  \<open>RequestException\<close> family, with \<open>k < max_retries\<close>.  If fetch number \<open>k + 1\<close> returns a
  payload, \<open>query\<close> returns that payload; if it fails too, with such an exception, and was
  the last of the budget (\<open>k = max_retries - 1\<close>), \<open>query\<close> raises that very exception.
  In both cases the events of the query are \<open>attempt_events\<close>: \<open>k + 1\<close> fetches, with the
  sleeps \<open>retry_delay * 2 ^ 0\<close>, ..., \<open>retry_delay * 2 ^ (k - 1)\<close> between them and no
  sleep after the last fetch.
\<close>

theorem query_retry_sequence:
  "int k < max_retries cfg
   \<and> (\<forall>i<k. \<exists>e. net (fetch_count w + i) (url cfg) ql (timeout cfg) = Raised e
                  \<and> is_RequestException e) \<longrightarrow>
     (net (fetch_count w + k) (url cfg) ql (timeout cfg) = Returned j \<longrightarrow>
        query cfg net ql w = (Inr j, w @ attempt_events cfg ql k))
   \<and> (net (fetch_count w + k) (url cfg) ql (timeout cfg) = Raised e
        \<and> is_RequestException e \<and> int k = max_retries cfg - 1 \<longrightarrow>
        query cfg net ql w = (Inl e, w @ attempt_events cfg ql k))
   \<and> fetch_count (attempt_events cfg ql k) = k + 1
   \<and> sleeps_of (attempt_events cfg ql k) = map (\<lambda>i. retry_delay cfg * 2 ^ i) [0..<k]
   \<and> last (attempt_events cfg ql k) = Fetch (url cfg) ql (timeout cfg)"
proof (intro impI, elim conjE)
  assume k: "int k < max_retries cfg"
    and f: "\<forall>i<k. \<exists>e. net (fetch_count w + i) (url cfg) ql (timeout cfg) = Raised e
                  \<and> is_RequestException e"
  define w1 where "w1 = w @ failed_attempts cfg ql 0 k"
  have run: "query cfg net ql w =
             query_attempts cfg net ql (map int [k..<nat (max_retries cfg)]) w1"
    using query_attempts_failures[of k net w cfg ql 0] f k
    by (simp add: query_def py_range_def w1_def)
  have fc: "fetch_count w1 = fetch_count w + k"
    by (simp add: w1_def fetch_count_append fetch_count_failed_attempts)
  have kn: "k < nat (max_retries cfg)" using k by simp
  have ok: "query cfg net ql w = (Inr j, w @ attempt_events cfg ql k)"
    if "net (fetch_count w + k) (url cfg) ql (timeout cfg) = Returned j"
    using that unfolding run py_range_from[OF kn]
    by (simp add: requests_get_def fc) (simp add: w1_def attempt_events_def)
  have bad: "query cfg net ql w = (Inl e, w @ attempt_events cfg ql k)"
    if "net (fetch_count w + k) (url cfg) ql (timeout cfg) = Raised e"
       "is_RequestException e" "int k = max_retries cfg - 1"
    using that unfolding run py_range_from[OF kn]
    by (simp add: requests_get_def fc) (simp add: w1_def attempt_events_def)
  have c: "fetch_count (attempt_events cfg ql k) = k + 1"
    by (simp add: attempt_events_def fetch_count_append fetch_count_failed_attempts)
      (simp add: fetch_count_def)
  have s: "sleeps_of (attempt_events cfg ql k) = map (\<lambda>i. retry_delay cfg * 2 ^ i) [0..<k]"
    using sleeps_of_failed_attempts[of cfg ql 0 k]
    by (simp add: attempt_events_def sleeps_of_append)
  have l: "last (attempt_events cfg ql k) = Fetch (url cfg) ql (timeout cfg)"
    by (simp add: attempt_events_def)
  from ok bad c s l
  show "(net (fetch_count w + k) (url cfg) ql (timeout cfg) = Returned j \<longrightarrow>
        query cfg net ql w = (Inr j, w @ attempt_events cfg ql k))
   \<and> (net (fetch_count w + k) (url cfg) ql (timeout cfg) = Raised e
        \<and> is_RequestException e \<and> int k = max_retries cfg - 1 \<longrightarrow>
        query cfg net ql w = (Inl e, w @ attempt_events cfg ql k))
   \<and> fetch_count (attempt_events cfg ql k) = k + 1
   \<and> sleeps_of (attempt_events cfg ql k) = map (\<lambda>i. retry_delay cfg * 2 ^ i) [0..<k]
   \<and> last (attempt_events cfg ql k) = Fetch (url cfg) ql (timeout cfg)"
    by blast
qed

theorem query_retry_sequence_witness:
  "query config3 fail_twice ''q'' [] =
     (Inr (JObj [(''elements'', JArr [])]),
      [Fetch (url config3) ''q'' 30, Sleep 1, Fetch (url config3) ''q'' 30, Sleep 2,
       Fetch (url config3) ''q'' 30])
   \<and> query config2 always_timeout ''q'' [] =
     (Inl (RequestException ''Timeout''),
      [Fetch (url config2) ''q'' 30, Sleep (1 / 10), Fetch (url config2) ''q'' 30])"
proof -
  have a: "attempt_events config3 ''q'' 2 =
      [Fetch (url config3) ''q'' 30, Sleep 1, Fetch (url config3) ''q'' 30, Sleep 2,
       Fetch (url config3) ''q'' 30]"
    by (simp add: attempt_events_def numeral_2_eq_2 config3_def)
  have b: "attempt_events config2 ''q'' (Suc 0) =
      [Fetch (url config2) ''q'' 30, Sleep (1 / 10), Fetch (url config2) ''q'' 30]"
    by (simp add: attempt_events_def config2_def)
  have f3: "\<forall>i<2. \<exists>e. fail_twice (fetch_count [] + i) (url config3) ''q'' (timeout config3) = Raised e
                  \<and> is_RequestException e"
    by (simp add: fail_twice_def fetch_count_def)
  have f2: "\<forall>i<1. \<exists>e. always_timeout (fetch_count [] + i) (url config2) ''q'' (timeout config2) = Raised e
                  \<and> is_RequestException e"
    by (simp add: always_timeout_def)
  have "query config3 fail_twice ''q'' [] =
          (Inr (JObj [(''elements'', JArr [])]), [] @ attempt_events config3 ''q'' 2)"
    using f3 query_retry_sequence[where cfg = config3 and net = fail_twice and ql = "''q''"
        and w = "[]" and k = 2 and j = "JObj [(''elements'', JArr [])]"]
    by (simp add: fail_twice_def fetch_count_def config3_def)
  moreover have "query config2 always_timeout ''q'' [] =
          (Inl (RequestException ''Timeout''), [] @ attempt_events config2 ''q'' 1)"
    using f2 query_retry_sequence[where cfg = config2 and net = always_timeout and ql = "''q''"
        and w = "[]" and k = 1 and e = "RequestException ''Timeout''"]
    by (simp add: always_timeout_def fetch_count_def config2_def)
  ultimately show ?thesis by (simp add: a b)
qed

text \<open>An exception outside the \<open>RequestException\<close> family is not retried.\<close>

lemma query_other_exception:
  "0 < max_retries cfg \<Longrightarrow> net (fetch_count w) (url cfg) ql (timeout cfg) = Raised e \<Longrightarrow>
   \<not> is_RequestException e \<Longrightarrow>
   query cfg net ql w = (Inl e, w @ [Fetch (url cfg) ql (timeout cfg)])"
proof -
  assume m: "0 < max_retries cfg"
    and r: "net (fetch_count w) (url cfg) ql (timeout cfg) = Raised e" "\<not> is_RequestException e"
  have "0 < nat (max_retries cfg)" using m by simp
  then have "map int [0..<nat (max_retries cfg)] = int 0 # map int [Suc 0..<nat (max_retries cfg)]"
    by (rule py_range_from)
  then show ?thesis using r by (simp add: query_def py_range_def requests_get_def)
qed

text \<open>Every event a query adds is a fetch of its own text or a sleep.\<close>

lemma query_attempts_events:
  "\<exists>evs. snd (query_attempts cfg net ql as w) = w @ evs
     \<and> (\<forall>ev\<in>set evs. ev = Fetch (url cfg) ql (timeout cfg) \<or> \<not> is_Fetch ev)"
proof (induction as arbitrary: w)
  case Nil
  show ?case by simp
next
  case (Cons a as)
  define w2 where "w2 = time_sleep (retry_delay cfg * 2 ^ nat a) (w @ [Fetch (url cfg) ql (timeout cfg)])"
  from Cons.IH[of w2] obtain evs where evs: "snd (query_attempts cfg net ql as w2) = w2 @ evs"
    "\<forall>ev\<in>set evs. ev = Fetch (url cfg) ql (timeout cfg) \<or> \<not> is_Fetch ev" by blast
  have w2: "w2 = w @ [Fetch (url cfg) ql (timeout cfg), Sleep (retry_delay cfg * 2 ^ nat a)]"
    by (simp add: w2_def time_sleep_def)
  show ?case
  proof (cases "snd (query_attempts cfg net ql (a # as) w) = w @ [Fetch (url cfg) ql (timeout cfg)]")
    case True
    then show ?thesis by (intro exI[of _ "[Fetch (url cfg) ql (timeout cfg)]"]) simp
  next
    case False
    then have "snd (query_attempts cfg net ql (a # as) w) = snd (query_attempts cfg net ql as w2)"
      by (auto simp: requests_get_def w2_def split: outcome.splits if_splits)
    then have "snd (query_attempts cfg net ql (a # as) w) =
        w @ ([Fetch (url cfg) ql (timeout cfg), Sleep (retry_delay cfg * 2 ^ nat a)] @ evs)"
      using evs(1) w2 by simp
    moreover have "\<forall>ev\<in>set ([Fetch (url cfg) ql (timeout cfg), Sleep (retry_delay cfg * 2 ^ nat a)] @ evs).
        ev = Fetch (url cfg) ql (timeout cfg) \<or> \<not> is_Fetch ev"
      using evs(2) by simp
    ultimately show ?thesis by blast
  qed
qed

lemma query_events:
  "\<exists>evs. snd (query cfg net ql w) = w @ evs
     \<and> (\<forall>ev\<in>set evs. ev = Fetch (url cfg) ql (timeout cfg) \<or> \<not> is_Fetch ev)"
  unfolding query_def by (rule query_attempts_events)

section \<open>The repository\<close>

lemma tag_conditions_loop_concat:
  "tag_conditions_loop tgs conditions =
     conditions @ concat (map (\<lambda>(k, v). ''['' @ [CHR 0x22] @ k @ [CHR 0x22] @ ''='' @ [CHR 0x22]
                                  @ v @ [CHR 0x22] @ '']'') tgs)"
  by (induction tgs conditions rule: tag_conditions_loop.induct) (simp_all add: quote_char_def)

lemma relation_query_text:
  "relation_query fmt bbox (build_tag_conditions tgs) =
     [CHR 0x0A] @ ''[bbox:('' @ fmt (lat_min bbox) @ '','' @ fmt (lon_min bbox) @ '',''
       @ fmt (lat_max bbox) @ '','' @ fmt (lon_max bbox) @ '')];'' @ [CHR 0x0A]
     @ ''('' @ [CHR 0x0A]
     @ ''  relation''
     @ concat (map (\<lambda>(k, v). ''['' @ [CHR 0x22] @ k @ [CHR 0x22] @ ''='' @ [CHR 0x22]
                       @ v @ [CHR 0x22] @ '']'') tgs)
     @ '';'' @ [CHR 0x0A]
     @ '');'' @ [CHR 0x0A]
     @ ''out count;'' @ [CHR 0x0A]"
  by (simp add: relation_query_def build_tag_conditions_def tag_conditions_loop_concat
      to_overpass_def newline_def)

text \<open>
  Claim C2.  For a valid bounding box \<open>find_relations\<close> queries with the text \<open>ql\<close> written
  out below: the bounding box, the one statement \<^verbatim>\<open>relation\<close> with the tag conditions, and
  the one output statement \<^verbatim>\<open>out count;\<close>.  Every fetch it makes carries this text.
  Whatever payload the query returns, \<open>find_relations\<close> returns the empty list and leaves
  the cache alone; when the query raises, the exception goes through.  For an invalid
  bounding box it raises the \<^verbatim>\<open>ValueError\<close> for the box, the state unchanged.
\<close>

theorem find_relations_empty:
  assumes "ql =
     [CHR 0x0A] @ ''[bbox:('' @ fmt (lat_min bbox) @ '','' @ fmt (lon_min bbox) @ '',''
       @ fmt (lat_max bbox) @ '','' @ fmt (lon_max bbox) @ '')];'' @ [CHR 0x0A]
     @ ''('' @ [CHR 0x0A]
     @ ''  relation''
     @ concat (map (\<lambda>(k, v). ''['' @ [CHR 0x22] @ k @ [CHR 0x22] @ ''='' @ [CHR 0x22]
                       @ v @ [CHR 0x22] @ '']'')
                 (case tgs of None \<Rightarrow> [(''boundary'', ''administrative'')] | Some t \<Rightarrow> t))
     @ '';'' @ [CHR 0x0A]
     @ '');'' @ [CHR 0x0A]
     @ ''out count;'' @ [CHR 0x0A]"
  shows
  "(bbox_is_valid bbox \<longrightarrow>
      (\<forall>data w. query cfg net ql (world st) = (Inr data, w) \<longrightarrow>
          find_relations fmt cfg net bbox tgs st = (Inr [], st\<lparr>world := w\<rparr>))
      \<and> (\<forall>e w. query cfg net ql (world st) = (Inl e, w) \<longrightarrow>
          find_relations fmt cfg net bbox tgs st = (Inl e, st\<lparr>world := w\<rparr>))
      \<and> (\<exists>evs. world (snd (find_relations fmt cfg net bbox tgs st)) = world st @ evs
            \<and> (\<forall>ev\<in>set evs. is_Fetch ev \<longrightarrow> ev = Fetch (url cfg) ql (timeout cfg))))
   \<and> (\<not> bbox_is_valid bbox \<longrightarrow>
        find_relations fmt cfg net bbox tgs st = (Inl (invalid_bbox_error fmt bbox), st))"
proof -
  have ql: "ql = relation_query fmt bbox
                    (build_tag_conditions
                       (case tgs of None \<Rightarrow> [(''boundary'', ''administrative'')] | Some t \<Rightarrow> t))"
    unfolding assms relation_query_text ..
  have a: "find_relations fmt cfg net bbox tgs st = (Inr [], st\<lparr>world := w\<rparr>)"
    if "bbox_is_valid bbox" "query cfg net ql (world st) = (Inr data, w)" for data w
    using that by (simp add: find_relations_def Let_def ql)
  have a2: "find_relations fmt cfg net bbox tgs st = (Inl e, st\<lparr>world := w\<rparr>)"
    if "bbox_is_valid bbox" "query cfg net ql (world st) = (Inl e, w)" for e w
    using that by (simp add: find_relations_def Let_def ql)
  have b: "\<exists>evs. world (snd (find_relations fmt cfg net bbox tgs st)) = world st @ evs
            \<and> (\<forall>ev\<in>set evs. is_Fetch ev \<longrightarrow> ev = Fetch (url cfg) ql (timeout cfg))"
    if v: "bbox_is_valid bbox"
  proof -
    from query_events[of cfg net ql "world st"] obtain evs
      where evs: "snd (query cfg net ql (world st)) = world st @ evs"
        "\<forall>ev\<in>set evs. ev = Fetch (url cfg) ql (timeout cfg) \<or> \<not> is_Fetch ev" by blast
    have "world (snd (find_relations fmt cfg net bbox tgs st)) = snd (query cfg net ql (world st))"
      using v by (auto simp: find_relations_def Let_def ql split: prod.splits sum.splits)
    then have "world (snd (find_relations fmt cfg net bbox tgs st)) = world st @ evs"
      using evs(1) by simp
    moreover have "\<forall>ev\<in>set evs. is_Fetch ev \<longrightarrow> ev = Fetch (url cfg) ql (timeout cfg)"
      using evs(2) by blast
    ultimately show ?thesis by blast
  qed
  have d: "find_relations fmt cfg net bbox tgs st = (Inl (invalid_bbox_error fmt bbox), st)"
    if "\<not> bbox_is_valid bbox"
    using that by (simp add: find_relations_def)
  from a a2 b d show ?thesis by blast
qed

theorem find_relations_empty_witness:
  "find_relations example_fmt config3 returns_relations paris_bbox None empty_state =
     (Inr [], empty_state\<lparr>world := [Fetch (url config3) paris_relation_text 30]\<rparr>)
   \<and> \<not> py_substring ''out geom'' paris_relation_text
   \<and> find_relations example_fmt config3 returns_relations reversed_bbox None empty_state =
     (Inl (invalid_bbox_error example_fmt reversed_bbox), empty_state)"
proof -
  have v: "bbox_is_valid paris_bbox" "\<not> bbox_is_valid reversed_bbox"
    by (simp_all add: bbox_is_valid_def paris_bbox_def reversed_bbox_def)
  have q: "query config3 returns_relations ql [] =
       (Inr (JObj [(''elements'', JArr [JObj [(''type'', JStr ''relation''), (''id'', JNum 5)]])]),
        [Fetch (url config3) ql 30])" for ql
    by (simp add: query_def py_range_def config3_def requests_get_def returns_relations_def
        fetch_count_def upt_conv_Cons)
  have t: "paris_relation_text =
     [CHR 0x0A] @ ''[bbox:('' @ example_fmt (lat_min paris_bbox) @ '',''
       @ example_fmt (lon_min paris_bbox) @ '',''
       @ example_fmt (lat_max paris_bbox) @ '','' @ example_fmt (lon_max paris_bbox) @ '')];''
     @ [CHR 0x0A]
     @ ''('' @ [CHR 0x0A]
     @ ''  relation''
     @ concat (map (\<lambda>(k, v). ''['' @ [CHR 0x22] @ k @ [CHR 0x22] @ ''='' @ [CHR 0x22]
                       @ v @ [CHR 0x22] @ '']'')
                 (case None of None \<Rightarrow> [(''boundary'', ''administrative'')] | Some t \<Rightarrow> t))
     @ '';'' @ [CHR 0x0A]
     @ '');'' @ [CHR 0x0A]
     @ ''out count;'' @ [CHR 0x0A]"
    by (simp add: paris_relation_text_def example_fmt_def paris_bbox_def)
  have r: "find_relations example_fmt config3 returns_relations paris_bbox None empty_state =
     (Inr [], empty_state\<lparr>world := [Fetch (url config3) paris_relation_text 30]\<rparr>)"
    using v(1) q[of paris_relation_text]
      find_relations_empty[OF t, where cfg = config3 and net = returns_relations
        and st = empty_state]
    by (simp add: empty_state_def)
  have i: "find_relations example_fmt config3 returns_relations reversed_bbox None empty_state =
     (Inl (invalid_bbox_error example_fmt reversed_bbox), empty_state)"
    using v(2) find_relations_empty[OF refl, where bbox = reversed_bbox and cfg = config3
        and net = returns_relations and fmt = example_fmt and st = empty_state and tgs = None]
    by simp
  have g: "\<not> py_substring ''out geom'' paris_relation_text"
    by (simp add: paris_relation_text_def)
  from r g i show ?thesis by simp
qed

text \<open>
  Claim C3.  For an invalid bounding box \<open>find_ways\<close> raises the \<^verbatim>\<open>ValueError\<close> for the
  box and the state is unchanged: no event, so no fetch, has happened.  For a valid box
  \<open>find_ways\<close> always returns a list; when the query raises (as after the last retry), and
  more generally when the \<^verbatim>\<open>try\<close> block of \<open>_query_and_parse\<close> raises, the list is empty.
\<close>

theorem find_ways_errors:
  "(\<not> bbox_is_valid bbox \<longrightarrow>
      find_ways fmt cfg net bbox tgs st = (Inl (invalid_bbox_error fmt bbox), st))
   \<and> (bbox_is_valid bbox \<longrightarrow>
        (\<exists>polygons st1. find_ways fmt cfg net bbox tgs st = (Inr polygons, st1))
        \<and> (\<forall>e w. query cfg net
                    (way_query fmt bbox
                       (build_tag_conditions
                          (case tgs of None \<Rightarrow> [(''building'', ''yes'')] | Some t \<Rightarrow> t)))
                    (world st) = (Inl e, w) \<longrightarrow>
              find_ways fmt cfg net bbox tgs st = (Inr [], st\<lparr>world := w\<rparr>))
        \<and> (\<forall>e st1. query_and_parse_try cfg net
                    (way_query fmt bbox
                       (build_tag_conditions
                          (case tgs of None \<Rightarrow> [(''building'', ''yes'')] | Some t \<Rightarrow> t)))
                    WAY st = (Inl e, st1) \<longrightarrow>
              find_ways fmt cfg net bbox tgs st = (Inr [], st1)))"
proof -
  define ql where "ql = way_query fmt bbox
                       (build_tag_conditions
                          (case tgs of None \<Rightarrow> [(''building'', ''yes'')] | Some t \<Rightarrow> t))"
  have fw: "find_ways fmt cfg net bbox tgs st =
              (Inr (fst (query_and_parse cfg net ql WAY st)), snd (query_and_parse cfg net ql WAY st))"
    if "bbox_is_valid bbox"
    using that by (simp add: find_ways_def Let_def ql_def split: prod.splits)
  have a: "find_ways fmt cfg net bbox tgs st = (Inl (invalid_bbox_error fmt bbox), st)"
    if "\<not> bbox_is_valid bbox"
    using that by (simp add: find_ways_def)
  have b: "\<exists>polygons st1. find_ways fmt cfg net bbox tgs st = (Inr polygons, st1)"
    if "bbox_is_valid bbox"
    using fw[OF that] by blast
  have c: "find_ways fmt cfg net bbox tgs st = (Inr [], st1)"
    if "bbox_is_valid bbox" "query_and_parse_try cfg net ql WAY st = (Inl e, st1)" for e st1
    using fw[OF that(1)] that(2) by (simp add: query_and_parse_def)
  have d: "find_ways fmt cfg net bbox tgs st = (Inr [], st\<lparr>world := w\<rparr>)"
    if "bbox_is_valid bbox" "query cfg net ql (world st) = (Inl e, w)" for e w
  proof -
    have "query_and_parse_try cfg net ql WAY st = (Inl e, st\<lparr>world := w\<rparr>)"
      using that(2) by (simp add: query_and_parse_try_def)
    then show ?thesis using c that(1) by blast
  qed
  from a b c d show ?thesis unfolding ql_def by blast
qed

theorem find_ways_errors_witness:
  "find_ways example_fmt config2 always_timeout reversed_bbox None empty_state =
     (Inl (invalid_bbox_error example_fmt reversed_bbox), empty_state)
   \<and> find_ways example_fmt config2 always_timeout paris_bbox None empty_state =
     (Inr [], empty_state\<lparr>world :=
        [Fetch (url config2)
           (way_query example_fmt paris_bbox (build_tag_conditions [(''building'', ''yes'')])) 30,
         Sleep (1 / 10),
         Fetch (url config2)
           (way_query example_fmt paris_bbox (build_tag_conditions [(''building'', ''yes'')])) 30]\<rparr>)
   \<and> query_and_parse_try config3 returns_bad_elements
        (way_query example_fmt paris_bbox (build_tag_conditions [(''building'', ''yes'')]))
        WAY empty_state =
     (Inl TypeError, empty_state\<lparr>world :=
        [Fetch (url config3)
           (way_query example_fmt paris_bbox (build_tag_conditions [(''building'', ''yes'')])) 30]\<rparr>)
   \<and> find_ways example_fmt config3 returns_bad_elements paris_bbox None empty_state =
     (Inr [], empty_state\<lparr>world :=
        [Fetch (url config3)
           (way_query example_fmt paris_bbox (build_tag_conditions [(''building'', ''yes'')])) 30]\<rparr>)"
proof -
  have v: "bbox_is_valid paris_bbox" "\<not> bbox_is_valid reversed_bbox"
    by (simp_all add: bbox_is_valid_def paris_bbox_def reversed_bbox_def)
  have q2: "query config2 always_timeout ql [] =
       (Inl (RequestException ''Timeout''),
        [Fetch (url config2) ql 30, Sleep (1 / 10), Fetch (url config2) ql 30])" for ql
    by (simp add: query_def py_range_def config2_def requests_get_def always_timeout_def
        time_sleep_def upt_conv_Cons)
  have q3: "query config3 returns_bad_elements ql [] =
       (Inr (JObj [(''elements'', JNum 5)]), [Fetch (url config3) ql 30])" for ql
    by (simp add: query_def py_range_def config3_def requests_get_def returns_bad_elements_def
        upt_conv_Cons)
  have t: "query_and_parse_try config3 returns_bad_elements ql WAY empty_state =
       (Inl TypeError, empty_state\<lparr>world := [Fetch (url config3) ql 30]\<rparr>)" for ql
    by (simp add: query_and_parse_try_def q3 empty_state_def)
  show ?thesis
    using v q2 t
      find_ways_errors[where bbox = reversed_bbox and cfg = config2 and net = always_timeout
        and fmt = example_fmt and st = empty_state and tgs = None]
      find_ways_errors[where bbox = paris_bbox and cfg = config2 and net = always_timeout
        and fmt = example_fmt and st = empty_state and tgs = None]
      find_ways_errors[where bbox = paris_bbox and cfg = config3 and net = returns_bad_elements
        and fmt = example_fmt and st = empty_state and tgs = None]
    by (simp add: empty_state_def)
qed

end
